theory Spec2Isabelle
  imports Complex_Main "HOL-Library.Stream"
begin

section \<open>Numbers, vectors and random draws\<close>

text \<open>
  The renderer computes on \<^verbatim>\<open>double\<close> and \<^verbatim>\<open>glm::dvec3\<close>. The value of a
  \<^verbatim>\<open>double\<close> is a \<^typ>\<open>real\<close>; there is no infinity and no NaN. In the emission
  budget a product of doubles is cut to an integer, and the rounding of the operations
  decides which integer: there every operation is rounded to the nearest double (see
  below). Everywhere else the arithmetic is exact. A \<^verbatim>\<open>size_t\<close> is a \<^typ>\<open>nat\<close>; no
  count of this development comes near \<open>2 ^ 64\<close>. Where the source divides, the model
  divides; a quotient by zero is \<open>0\<close> here and an infinity or a NaN in the source, and the
  theorems say where a zero divisor is within their reach.
\<close>

datatype dvec3 = dvec3 (vx: real) (vy: real) (vz: real)

instantiation dvec3 :: "{zero, plus, minus, uminus, times}"
begin

definition zero_dvec3 :: dvec3 where
  "zero_dvec3 = dvec3 0 0 0"

fun plus_dvec3 :: "dvec3 \<Rightarrow> dvec3 \<Rightarrow> dvec3" where
  "plus_dvec3 (dvec3 a b c) (dvec3 d e f) = dvec3 (a + d) (b + e) (c + f)"

fun minus_dvec3 :: "dvec3 \<Rightarrow> dvec3 \<Rightarrow> dvec3" where
  "minus_dvec3 (dvec3 a b c) (dvec3 d e f) = dvec3 (a - d) (b - e) (c - f)"

fun uminus_dvec3 :: "dvec3 \<Rightarrow> dvec3" where
  "uminus_dvec3 (dvec3 a b c) = dvec3 (- a) (- b) (- c)"

text \<open>\<^verbatim>\<open>operator*\<close> of two \<^verbatim>\<open>glm::dvec3\<close> multiplies componentwise.\<close>

fun times_dvec3 :: "dvec3 \<Rightarrow> dvec3 \<Rightarrow> dvec3" where
  "times_dvec3 (dvec3 a b c) (dvec3 d e f) = dvec3 (a * d) (b * e) (c * f)"

instance ..

end

text \<open>Vector times scalar and vector over scalar (\<^verbatim>\<open>v * s\<close>, \<^verbatim>\<open>s * v\<close>, \<^verbatim>\<open>v / s\<close>).\<close>

fun smul :: "real \<Rightarrow> dvec3 \<Rightarrow> dvec3" where
  "smul s (dvec3 a b c) = dvec3 (s * a) (s * b) (s * c)"

fun sdiv :: "dvec3 \<Rightarrow> real \<Rightarrow> dvec3" where
  "sdiv (dvec3 a b c) s = dvec3 (a / s) (b / s) (c / s)"

fun dot :: "dvec3 \<Rightarrow> dvec3 \<Rightarrow> real" where
  "dot (dvec3 a b c) (dvec3 d e f) = a * d + b * e + c * f"

text \<open>\<^verbatim>\<open>glm::compMax\<close>.\<close>

fun compMax :: "dvec3 \<Rightarrow> real" where
  "compMax (dvec3 a b c) = max (max a b) c"

text \<open>\<^verbatim>\<open>glm::normalize\<close>, \<^verbatim>\<open>glm::reflect\<close>.\<close>

definition normalize :: "dvec3 \<Rightarrow> dvec3" where
  "normalize v = sdiv v (sqrt (dot v v))"

definition reflect :: "dvec3 \<Rightarrow> dvec3 \<Rightarrow> dvec3" where
  "reflect i n = i - smul (2 * dot n i) n"

text \<open>\<^verbatim>\<open>pow2\<close> of util.hpp.\<close>

definition pow2 :: "real \<Rightarrow> real" where
  "pow2 a = a * a"

subsection \<open>Rounding to double precision\<close>

text \<open>
  A \<^verbatim>\<open>double\<close> has 53 significant binary digits, and an operation returns the double
  nearest to the exact result, the one with an even last digit when two are equally near.
  \<open>double_round\<close> is this rounding: for \<open>x\<close> with \<open>2\<^sup>e \<le> |x| < 2\<^sup>e\<^sup>+\<^sup>1\<close> the doubles
  around \<open>x\<close> are the multiples of \<open>2\<^sup>e\<^sup>-\<^sup>5\<^sup>2\<close>. The exponent is not bounded here: a
  \<^verbatim>\<open>double\<close> overflows beyond \<open>2\<^sup>1\<^sup>0\<^sup>2\<^sup>4\<close> and thins out below \<open>2\<^sup>-\<^sup>1\<^sup>0\<^sup>2\<^sup>2\<close>, which no
  quantity of the emission budget comes near. Each operation is rounded on its own, as
  it is without fused multiplication and addition and without wider registers.
\<close>

definition round_half_even :: "real \<Rightarrow> int" where
  "round_half_even m =
     (let f = \<lfloor>m\<rfloor>; r = m - of_int f
      in if r < 1 / 2 then f else if r > 1 / 2 then f + 1 else if even f then f else f + 1)"

definition double_round :: "real \<Rightarrow> real" where
  "double_round x =
     (if x = 0 then 0
      else
        let q = 2 powr of_int (\<lfloor>log 2 \<bar>x\<bar>\<rfloor> - 52)
        in of_int (round_half_even (x / q)) * q)"

definition double_add :: "real \<Rightarrow> real \<Rightarrow> real" where
  "double_add a b = double_round (a + b)"

definition double_mul :: "real \<Rightarrow> real \<Rightarrow> real" where
  "double_mul a b = double_round (a * b)"

definition double_div :: "real \<Rightarrow> real \<Rightarrow> real" where
  "double_div a b = double_round (a / b)"

text \<open>The conversion of a \<^verbatim>\<open>size_t\<close> to \<^verbatim>\<open>double\<close>.\<close>

definition double_of_size_t :: "nat \<Rightarrow> real" where
  "double_of_size_t n = double_round (real n)"

text \<open>
  In double precision: a vector times a scalar, a vector over a scalar, and
  \<^verbatim>\<open>glm::compAdd\<close>, which adds the components from left to right.
\<close>

fun smul_double :: "real \<Rightarrow> dvec3 \<Rightarrow> dvec3" where
  "smul_double s (dvec3 a b c) = dvec3 (double_mul a s) (double_mul b s) (double_mul c s)"

fun sdiv_double :: "dvec3 \<Rightarrow> real \<Rightarrow> dvec3" where
  "sdiv_double (dvec3 a b c) s = dvec3 (double_div a s) (double_div b s) (double_div c s)"

fun compAdd :: "dvec3 \<Rightarrow> real" where
  "compAdd (dvec3 a b c) = double_add (double_add a b) c"

subsection \<open>Random draws\<close>

text \<open>
  The random engine is the stream of the uniform draws still to come. \<^verbatim>\<open>Random::unit()\<close>
  takes the head.
\<close>

type_synonym rng = "real stream"

definition Random_unit :: "rng \<Rightarrow> real \<times> rng" where
  "Random_unit g = (shd g, stl g)"

text \<open>
  Modelled from the spec: \<^verbatim>\<open>Random::trial(p)\<close> of random.hpp, which is not part of the
  sources at hand. The specification writes the trial as \<^verbatim>\<open>Uniform < p\<close>.
\<close>

definition Random_trial :: "real \<Rightarrow> rng \<Rightarrow> bool \<times> rng" where
  "Random_trial p g = (shd g < p, stl g)"

section \<open>Photons and the density estimates\<close>

record Photon =
  flux :: dvec3
  position :: dvec3
  direction :: dvec3

record ShadowPhoton =
  position :: dvec3

text \<open>\<^verbatim>\<open>SearchResult<Photon>\<close>: a stored photon and its squared distance to the query.\<close>

record 'a SearchResult =
  data :: 'a
  distance2 :: real

text \<open>
  \<^verbatim>\<open>std::vector::back()\<close> on an empty vector is undefined behaviour; the model makes it an
  error value, so that a path of the code which reaches it is visible.
\<close>

datatype error = BackOfEmptyVector

definition vector_back :: "'a list \<Rightarrow> error + 'a" where
  "vector_back xs = (if xs = [] then Inl BackOfEmptyVector else Inr (last xs))"

text \<open>
  \<^verbatim>\<open>PhotonMapper::estimateRadiance\<close>. The interaction enters through its shading frame
  normal \<open>n\<close> (\<^verbatim>\<open>interaction.cs.normal\<close>) and its BRDF \<open>brdf\<close> (\<^verbatim>\<open>interaction.BRDF\<close>).
  The loop is a left fold over the photons in order.
\<close>

definition estimateRadiance_loop ::
  "dvec3 \<Rightarrow> (dvec3 \<Rightarrow> dvec3) \<Rightarrow> Photon SearchResult list \<Rightarrow> dvec3 \<Rightarrow> dvec3" where
  "estimateRadiance_loop n brdf photons radiance0 =
     foldl (\<lambda>radiance p.
        if dot (Photon.direction (data p)) n \<ge> 0 then radiance
        else radiance + flux (data p) * brdf (Photon.direction (data p)))
       radiance0 photons"

definition estimateRadiance ::
  "dvec3 \<Rightarrow> (dvec3 \<Rightarrow> dvec3) \<Rightarrow> Photon SearchResult list \<Rightarrow> error + dvec3" where
  "estimateRadiance n brdf photons =
     (let radiance = 0 in
      if photons = [] then Inr radiance
      else
        let radiance = estimateRadiance_loop n brdf photons radiance in
        case vector_back photons of
          Inl e \<Rightarrow> Inl e
        | Inr b \<Rightarrow> Inr (sdiv radiance (distance2 b)))"

text \<open>
  \<^verbatim>\<open>PhotonMapper::estimateCausticRadiance\<close>. \<open>photons\<close> is what
  \<^verbatim>\<open>linear_caustic_map.knnSearch(interaction.position, k_nearest_photons, max_caustic_radius)\<close>
  returned; the octree is not part of the sources at hand.
\<close>

definition estimateCausticRadiance_loop ::
  "dvec3 \<Rightarrow> (dvec3 \<Rightarrow> dvec3) \<Rightarrow> real \<Rightarrow> Photon SearchResult list \<Rightarrow> dvec3 \<Rightarrow> dvec3" where
  "estimateCausticRadiance_loop n brdf inv_max_squared_radius photons radiance0 =
     foldl (\<lambda>radiance p.
        if dot (Photon.direction (data p)) n \<ge> 0 then radiance
        else
          let wp = max 0 (1 - sqrt (distance2 p * inv_max_squared_radius)) in
          radiance + smul wp (flux (data p) * brdf (Photon.direction (data p))))
       radiance0 photons"

definition estimateCausticRadiance ::
  "dvec3 \<Rightarrow> (dvec3 \<Rightarrow> dvec3) \<Rightarrow> Photon SearchResult list \<Rightarrow> error + dvec3" where
  "estimateCausticRadiance n brdf photons =
     (let radiance = 0 in
      if photons = [] then Inr radiance
      else
        case vector_back photons of
          Inl e \<Rightarrow> Inl e
        | Inr b \<Rightarrow>
            let inv_max_squared_radius = 1 / distance2 b;
                radiance = estimateCausticRadiance_loop n brdf inv_max_squared_radius photons radiance
            in Inr (smul inv_max_squared_radius (smul 3 radiance)))"

section \<open>Rays\<close>

text \<open>
  \<^verbatim>\<open>Ray\<close>: origin, direction, the index of refraction of the medium the ray travels in,
  the flag saying that the last scattering event was specular, and the recursion depth.
  The three constructors of ray.cpp leave \<^verbatim>\<open>specular\<close> and \<^verbatim>\<open>depth\<close> to the
  initialisers of ray.hpp, which is not part of the sources at hand; the model starts them
  at \<open>False\<close> and \<open>0\<close>.
\<close>

record Ray =
  start :: dvec3
  direction :: dvec3
  medium_ior :: real
  specular :: bool
  depth :: nat

definition Ray_default :: Ray where
  "Ray_default =
     \<lparr>start = 0, direction = 0, medium_ior = 1, specular = False, depth = 0\<rparr>"

definition Ray_from :: "dvec3 \<Rightarrow> Ray" where
  "Ray_from s =
     \<lparr>start = s, direction = 0, medium_ior = 1, specular = False, depth = 0\<rparr>"

definition Ray_between :: "dvec3 \<Rightarrow> dvec3 \<Rightarrow> real \<Rightarrow> Ray" where
  "Ray_between s e m =
     \<lparr>start = s, direction = normalize (e - s), medium_ior = m, specular = False, depth = 0\<rparr>"

text \<open>\<^verbatim>\<open>Ray::operator()(double t)\<close>.\<close>

definition Ray_at :: "Ray \<Rightarrow> real \<Rightarrow> dvec3" where
  "Ray_at r d = start r + smul d (Ray.direction r)"

text \<open>
  The normals of the hit that ray.cpp reads from its \<^verbatim>\<open>Interaction\<close> argument
  \<^verbatim>\<open>ia\<close>: the geometric normal, the normal of the specular event and the shading normal.
\<close>

record HitNormals =
  normal :: dvec3
  specular_normal :: dvec3
  shading_normal :: dvec3

text \<open>
  \<^verbatim>\<open>Ray::reflectSpecular\<close> and \<^verbatim>\<open>Ray::refractSpecular\<close>. Both mutate the ray and return
  a flag; the model returns the flag and the new ray. \<open>eps\<close> is \<^verbatim>\<open>C::EPSILON\<close> of
  constants.hpp.
\<close>

definition reflectSpecular :: "real \<Rightarrow> Ray \<Rightarrow> dvec3 \<Rightarrow> HitNormals \<Rightarrow> real \<Rightarrow> bool \<times> Ray" where
  "reflectSpecular eps r i ia n1 =
     (let d = reflect i (specular_normal ia);
          r' = r\<lparr>direction := d,
                   start := start r + smul eps (HitNormals.normal ia),
                   specular := True,
                   medium_ior := n1\<rparr>
      in (dot (shading_normal ia) d > 0, r'))"

definition refractSpecular ::
  "real \<Rightarrow> Ray \<Rightarrow> dvec3 \<Rightarrow> HitNormals \<Rightarrow> real \<Rightarrow> real \<Rightarrow> bool \<times> Ray" where
  "refractSpecular eps r i ia n1 n2 =
     (let r = r\<lparr>specular := True\<rparr>;
          ior_quotient = n1 / n2;
          cos_theta = dot (specular_normal ia) i;
          k = 1 - pow2 ior_quotient * (1 - pow2 cos_theta)
      in if k \<ge> 0 then
           let d = smul ior_quotient i
                     - smul (ior_quotient * cos_theta + sqrt k) (specular_normal ia);
               r' = r\<lparr>direction := d,
                        start := start r - smul eps (HitNormals.normal ia),
                        medium_ior := n2\<rparr>
           in (dot (shading_normal ia) d < 0, r')
         else
           let d = i - smul (cos_theta * 2) (specular_normal ia);
               r' = r\<lparr>direction := d,
                        start := start r + smul eps (HitNormals.normal ia),
                        medium_ior := n1\<rparr>
           in (dot (shading_normal ia) d > 0, r'))"

section \<open>Materials, surfaces and the interaction at a hit\<close>

text \<open>
  Materials and surfaces belong to the scene, whose code is not part of the sources at
  hand. A material is the record of the properties the integrator reads; its methods are
  fields of function type. The microfacet sampler draws random numbers, so it takes and
  returns the random engine.
\<close>

record Material =
  perfect_mirror :: bool
  complex_ior :: "(dvec3 \<times> dvec3) option"
  transparency :: real
  ior :: real
  external_ior :: real
  opaque :: bool
  rough_specular :: bool
  emittance :: dvec3
  can_diffusely_reflect :: bool
  specularMicrofacetNormal :: "dvec3 \<Rightarrow> rng \<Rightarrow> dvec3 \<times> rng"
  SpecularBRDF :: "dvec3 \<Rightarrow> dvec3 \<Rightarrow> bool \<Rightarrow> dvec3"
  DiffuseBRDF :: "dvec3 \<Rightarrow> dvec3 \<Rightarrow> dvec3"

record Surface =
  normal :: "dvec3 \<Rightarrow> dvec3"
  interpolatedNormal :: "real \<times> real \<Rightarrow> dvec3"
  material :: Material
  area :: real

text \<open>A hit; \<^verbatim>\<open>!intersection\<close> is \<open>None\<close>.\<close>

record Intersection =
  t :: real
  surface :: Surface
  uv :: "real \<times> real"
  interpolate :: bool

text \<open>
  The functions of the libraries the interaction calls and whose code is not part of the
  sources at hand: the Fresnel terms of fresnel.hpp and the two changes of basis of
  \<^verbatim>\<open>CoordinateSystem\<close>, which take the frame's normal first.
\<close>

record Lib =
  Fresnel_dielectric :: "real \<Rightarrow> real \<Rightarrow> real \<Rightarrow> real"
  Fresnel_conductor :: "real \<Rightarrow> dvec3 \<times> dvec3 \<Rightarrow> real \<Rightarrow> dvec3"
  cs_to :: "dvec3 \<Rightarrow> dvec3 \<Rightarrow> dvec3"
  cs_from :: "dvec3 \<Rightarrow> dvec3 \<Rightarrow> dvec3"
  EPSILON :: real

record CoordinateSystem =
  normal :: dvec3

datatype Type = REFLECT | REFRACT | DIFFUSE

record Interaction =
  t :: real
  position :: dvec3
  normal :: dvec3
  material :: Material
  out :: dvec3
  n1 :: real
  n2 :: real
  inside :: bool
  ray :: Ray
  cs :: CoordinateSystem
  type :: Type

text \<open>
  \<^verbatim>\<open>Interaction::selectType\<close>. It sets \<^verbatim>\<open>type\<close>; the model returns it, with the random
  engine. A perfect mirror or a conductor returns before a number is drawn.
\<close>

definition selectType ::
  "Lib \<Rightarrow> Material \<Rightarrow> real \<Rightarrow> real \<Rightarrow> dvec3 \<Rightarrow> dvec3 \<Rightarrow> rng \<Rightarrow> Type \<times> rng" where
  "selectType lib m n1' n2' out' specular_normal' g =
     (if perfect_mirror m \<or> complex_ior m \<noteq> None then (REFLECT, g)
      else
        let R = Fresnel_dielectric lib n1' n2' (dot specular_normal' out');
            T = transparency m;
            (p, g') = Random_unit g
        in if R > p then (REFLECT, g')
           else if R + (1 - R) * T > p then (REFRACT, g')
           else (DIFFUSE, g'))"

text \<open>
  The first half of the constructor \<^verbatim>\<open>Interaction::Interaction\<close>: from the direction of
  the ray, the geometric normal at the hit and the interpolated normal (when the
  intersection asks for interpolation) to \<^verbatim>\<open>inside\<close>, \<^verbatim>\<open>n2\<close>, the geometric normal and
  the shading normal, as they are when the constructor builds the shading frame.
\<close>

definition Interaction_normals ::
  "Material \<Rightarrow> dvec3 \<Rightarrow> dvec3 \<Rightarrow> dvec3 option \<Rightarrow> bool \<times> real \<times> dvec3 \<times> dvec3" where
  "Interaction_normals m dir normal0 interpolated =
     (let cos_theta = dot dir normal0;
          (inside', n2') =
             (if cos_theta < 0 \<or> opaque m then (False, ior m) else (True, external_ior m));
          shading_normal0 =
             (case interpolated of
                Some sn \<Rightarrow> if (cos_theta < 0) \<noteq> (dot dir sn < 0) then normal0 else sn
              | None \<Rightarrow> normal0)
      in if cos_theta > 0 then (inside', n2', - normal0, - shading_normal0)
         else (inside', n2', normal0, shading_normal0))"

definition Interaction_ctor :: "Lib \<Rightarrow> Intersection \<Rightarrow> Ray \<Rightarrow> rng \<Rightarrow> Interaction \<times> rng" where
  "Interaction_ctor lib isect r g =
     (let t' = Intersection.t isect;
          position' = Ray_at r t';
          normal0 = Surface.normal (surface isect) position';
          m = Surface.material (surface isect);
          out' = - Ray.direction r;
          n1' = medium_ior r;
          (inside', n2', normal', shading_normal') =
             Interaction_normals m (Ray.direction r) normal0
               (if interpolate isect then Some (interpolatedNormal (surface isect) (uv isect))
                else None);
          cs0 = \<lparr>CoordinateSystem.normal = shading_normal'\<rparr>;
          ia = (\<lambda>c ty. \<lparr>t = t', position = position', normal = normal', material = m,
                        out = out', n1 = n1', n2 = n2', inside = inside', ray = r,
                        cs = c, type = ty\<rparr>)
      in if rough_specular m then
           let (h, g1) = specularMicrofacetNormal m (cs_to lib shading_normal' out') g;
               specular_normal' = cs_from lib shading_normal' h;
               (ty, g2) = selectType lib m n1' n2' out' specular_normal' g1
           in (ia (if ty \<noteq> DIFFUSE then \<lparr>CoordinateSystem.normal = specular_normal'\<rparr> else cs0) ty,
               g2)
         else
           let (ty, g1) = selectType lib m n1' n2' out' shading_normal' g
           in (ia cs0 ty, g1))"

text \<open>\<^verbatim>\<open>Interaction::BRDF\<close>.\<close>

definition BRDF :: "Lib \<Rightarrow> Interaction \<Rightarrow> dvec3 \<Rightarrow> dvec3" where
  "BRDF lib ia i =
     (let n = CoordinateSystem.normal (cs ia);
          local_in = cs_to lib n i
      in if vz local_in = 0 then 0
         else if type ia \<noteq> DIFFUSE then
           let local_out = cs_to lib n (out ia);
               brdf = SpecularBRDF (material ia) local_in local_out (inside ia)
           in (case complex_ior (material ia) of
                 Some c \<Rightarrow> brdf * Fresnel_conductor lib (n1 ia) c (vz local_out)
               | None \<Rightarrow> brdf)
         else DiffuseBRDF (material ia) local_in (cs_to lib n (out ia)))"

section \<open>The photon mapper\<close>

text \<open>
  The octrees are not part of the sources at hand. A linearised photon map is the pair of
  its two queries.
\<close>

record 'a LinearOctree =
  knnSearch :: "dvec3 \<Rightarrow> nat \<Rightarrow> real \<Rightarrow> 'a SearchResult list"
  radiusEmpty :: "dvec3 \<Rightarrow> real \<Rightarrow> bool"

text \<open>
  \<^verbatim>\<open>PhotonMapper\<close>: the settings read from the scene document, the two depth limits of the
  \<^verbatim>\<open>Integrator\<close> base class, the four linearised maps, and the operations of the scene,
  of the base class and of the ray class whose code is not part of the sources at hand:
  \<^verbatim>\<open>scene.intersect\<close>, \<^verbatim>\<open>Integrator::sampleDirect\<close>, \<^verbatim>\<open>Integrator::absorb\<close> (which
  returns the flag and sets \<^verbatim>\<open>survive\<close>) and the constructor \<^verbatim>\<open>Ray(interaction)\<close>.
\<close>

record PhotonMapper =
  k_nearest_photons :: nat
  non_caustic_reject :: real
  max_radius :: real
  max_caustic_radius :: real
  max_node_data :: nat
  direct_visualization :: bool
  use_shadow_photons :: bool
  min_bounce_distance :: real
  max_ray_depth :: nat
  min_ray_depth :: nat
  linear_caustic_map :: "Photon LinearOctree"
  linear_direct_map :: "Photon LinearOctree"
  linear_indirect_map :: "Photon LinearOctree"
  linear_shadow_map :: "ShadowPhoton LinearOctree"
  intersect :: "Ray \<Rightarrow> Intersection option"
  sampleDirect :: "Interaction \<Rightarrow> rng \<Rightarrow> dvec3 \<times> rng"
  absorb :: "Ray \<Rightarrow> Intersection \<Rightarrow> rng \<Rightarrow> (bool \<times> real) \<times> rng"
  Ray_of :: "Interaction \<Rightarrow> rng \<Rightarrow> Ray \<times> rng"

text \<open>
  The \<^verbatim>\<open>photon_map\<close> object of the scene document and the part of the constructor that
  reads it. \<^verbatim>\<open>getOptional\<close> falls back to its default when the key is absent.
\<close>

record photon_map_json =
  json_caustic_factor :: real
  json_emissions :: nat
  json_k_nearest_photons :: "nat option"
  json_max_radius :: real
  json_max_caustic_radius :: real
  json_max_photons_per_octree_leaf :: nat
  json_direct_visualization :: "bool option"
  json_use_shadow_photons :: "bool option"

definition getOptional :: "'a option \<Rightarrow> 'a \<Rightarrow> 'a" where
  "getOptional v d = (case v of Some a \<Rightarrow> a | None \<Rightarrow> d)"

definition PhotonMapper_settings :: "photon_map_json \<Rightarrow> PhotonMapper \<Rightarrow> PhotonMapper" where
  "PhotonMapper_settings j pm =
     (let caustic_factor = json_caustic_factor j;
          pm = pm\<lparr>k_nearest_photons := getOptional (json_k_nearest_photons j) 50\<rparr>;
          pm = pm\<lparr>non_caustic_reject := 1 / caustic_factor\<rparr>;
          pm = pm\<lparr>max_radius := json_max_radius j\<rparr>;
          pm = pm\<lparr>max_caustic_radius := json_max_caustic_radius j\<rparr>;
          pm = pm\<lparr>max_node_data := json_max_photons_per_octree_leaf j\<rparr>;
          pm = pm\<lparr>direct_visualization := getOptional (json_direct_visualization j) False\<rparr>;
          pm = pm\<lparr>use_shadow_photons := getOptional (json_use_shadow_photons j) True\<rparr>
      in pm\<lparr>min_bounce_distance := 5 * max_radius pm\<rparr>)"

subsection \<open>Emission budget\<close>

text \<open>
  The budget is computed in double precision, operation by operation, and cut to counts.
  \<^verbatim>\<open>static_cast<size_t>\<close> of a \<^verbatim>\<open>double\<close> drops the fractional part. The conversion is
  defined by the language for values from \<open>0\<close> up to the largest \<^verbatim>\<open>size_t\<close> only. The
  settings of the scene document are doubles already.
\<close>

definition static_cast_size_t :: "real \<Rightarrow> nat" where
  "static_cast_size_t a = nat \<lfloor>a\<rfloor>"

definition scaled_emissions :: "nat \<Rightarrow> real \<Rightarrow> nat" where
  "scaled_emissions photon_emissions caustic_factor =
     static_cast_size_t (double_mul (double_of_size_t photon_emissions) caustic_factor)"

definition light_flux :: "Surface \<Rightarrow> dvec3" where
  "light_flux light = smul_double (area light) (emittance (Surface.material light))"

definition total_add_flux :: "Surface list \<Rightarrow> real" where
  "total_add_flux emissives =
     foldl (\<lambda>acc light. double_add acc (compAdd (light_flux light))) 0 emissives"

definition num_light_emissions :: "nat \<Rightarrow> real \<Rightarrow> Surface \<Rightarrow> nat" where
  "num_light_emissions photon_emissions tot light =
     (let photon_emissions_share = double_div (compAdd (light_flux light)) tot
      in static_cast_size_t
           (double_mul (double_of_size_t photon_emissions) photon_emissions_share))"

definition light_photon_flux :: "nat \<Rightarrow> real \<Rightarrow> Surface \<Rightarrow> dvec3" where
  "light_photon_flux photon_emissions tot light =
     sdiv_double (light_flux light)
       (double_of_size_t (num_light_emissions photon_emissions tot light))"

record EmissionWork =
  light :: Surface
  num_emissions :: nat
  photon_flux :: dvec3

definition EPW :: nat where
  "EPW = 100000"

text \<open>
  The inner \<^verbatim>\<open>while (count != num_light_emissions)\<close> loop, which cuts the emissions of one
  light into work items of at most \<open>EPW\<close> emissions. The loop condition is an inequality,
  so the loop is a partial function: \<open>None\<close> is a loop that does not end.
\<close>

partial_function (option) emission_chunks ::
  "Surface \<Rightarrow> nat \<Rightarrow> dvec3 \<Rightarrow> nat \<Rightarrow> EmissionWork list \<Rightarrow> EmissionWork list option" where
  "emission_chunks l n pf count work_vec =
     (if count \<noteq> n then
        let emissions = (if count + EPW > n then n - count else EPW)
        in emission_chunks l n pf (count + emissions)
             (work_vec @ [\<lparr>light = l, num_emissions = emissions, photon_flux = pf\<rparr>])
      else Some work_vec)"

text \<open>The outer loop over \<^verbatim>\<open>scene.emissives\<close>.\<close>

fun emission_work ::
  "nat \<Rightarrow> real \<Rightarrow> Surface list \<Rightarrow> EmissionWork list \<Rightarrow> EmissionWork list option" where
  "emission_work photon_emissions tot [] work_vec = Some work_vec"
| "emission_work photon_emissions tot (l # ls) work_vec =
     (case emission_chunks l (num_light_emissions photon_emissions tot l)
             (light_photon_flux photon_emissions tot l) 0 work_vec of
        None \<Rightarrow> None
      | Some work_vec' \<Rightarrow> emission_work photon_emissions tot ls work_vec')"

definition PhotonMapper_work ::
  "photon_map_json \<Rightarrow> Surface list \<Rightarrow> EmissionWork list option" where
  "PhotonMapper_work j emissives =
     (let photon_emissions = scaled_emissions (json_emissions j) (json_caustic_factor j)
      in emission_work photon_emissions (total_add_flux emissives) emissives [])"

subsection \<open>Pass 1: the photon tracer\<close>

text \<open>
  The photon vectors, one per worker thread and map, that the tracer appends to.
  \<^verbatim>\<open>vecs[thread].emplace_back(p)\<close> appends to the vector of the thread; the
  constructor sizes the vectors to the number of threads, and an index beyond them, which
  the source must not use, changes nothing here.
\<close>

record PhotonVecs =
  direct_vecs :: "Photon list list"
  indirect_vecs :: "Photon list list"
  caustic_vecs :: "Photon list list"
  shadow_vecs :: "ShadowPhoton list list"

definition emplace_back :: "'a list list \<Rightarrow> nat \<Rightarrow> 'a \<Rightarrow> 'a list list" where
  "emplace_back vecs thread p = vecs[thread := vecs ! thread @ [p]]"

definition Photon_of :: "dvec3 \<Rightarrow> dvec3 \<Rightarrow> dvec3 \<Rightarrow> Photon" where
  "Photon_of f p d = \<lparr>flux = f, Photon.position = p, Photon.direction = d\<rparr>"

text \<open>
  \<^verbatim>\<open>PhotonMapper::createShadowPhotons\<close>. The two-argument \<^verbatim>\<open>Ray(start, end)\<close> takes the
  default medium of ray.hpp, here \<open>1\<close> as in the other constructors. The recursion stops
  at the latest when \<open>d\<close> exceeds \<^verbatim>\<open>max_ray_depth\<close>.
\<close>

function createShadowPhotons ::
  "Lib \<Rightarrow> PhotonMapper \<Rightarrow> Ray \<Rightarrow> nat \<Rightarrow> nat \<Rightarrow> PhotonVecs \<Rightarrow> PhotonVecs" where
  "createShadowPhotons lib pm r thread d vecs =
     (if \<not> use_shadow_photons pm \<or> d > max_ray_depth pm then vecs
      else
        case intersect pm r of
          None \<Rightarrow> vecs
        | Some intersection \<Rightarrow>
            let position' = Ray_at r (Intersection.t intersection);
                vecs' =
                  (if can_diffusely_reflect (Surface.material (surface intersection))
                   then vecs\<lparr>shadow_vecs :=
                          emplace_back (shadow_vecs vecs) thread \<lparr>ShadowPhoton.position = position'\<rparr>\<rparr>
                   else vecs);
                normal0 = Surface.normal (surface intersection) position';
                normal' = (if dot normal0 (Ray.direction r) > 0 then - normal0 else normal0);
                pos = position' - smul (EPSILON lib) normal'
            in createShadowPhotons lib pm (Ray_between pos (pos + Ray.direction r) 1)
                 thread (d + 1) vecs')"
  by pat_completeness auto
termination
  by (relation "measure (\<lambda>(lib, pm, r, thread, d, vecs). Suc (max_ray_depth pm) - d)") auto

declare createShadowPhotons.simps [simp del]

text \<open>
  \<^verbatim>\<open>a && Random::trial(p)\<close>: the number is drawn only when \<open>a\<close> holds.
\<close>

definition and_trial :: "bool \<Rightarrow> real \<Rightarrow> rng \<Rightarrow> bool \<times> rng" where
  "and_trial a p g = (if a then Random_trial p g else (False, g))"

text \<open>
  The storage policy of \<^verbatim>\<open>PhotonMapper::emitPhoton\<close>, from the test of the interaction
  type to the end of the conditional: it may scale the BRDF, store a photon and scan for
  shadow photons. It returns the BRDF, the photon vectors and the random engine.
\<close>

definition shadow_scan :: "Lib \<Rightarrow> PhotonMapper \<Rightarrow> Ray \<Rightarrow> Interaction \<Rightarrow> nat \<Rightarrow> PhotonVecs \<Rightarrow> PhotonVecs" where
  "shadow_scan lib pm r ia thread vecs =
     createShadowPhotons lib pm
       (Ray_between (Interaction.position ia - smul (EPSILON lib) (Interaction.normal ia))
          (Interaction.position ia + Ray.direction r) 1)
       thread 0 vecs"

definition emitPhoton_store ::
  "Lib \<Rightarrow> PhotonMapper \<Rightarrow> Ray \<Rightarrow> dvec3 \<Rightarrow> Interaction \<Rightarrow> dvec3 \<Rightarrow> nat \<Rightarrow> PhotonVecs \<Rightarrow> rng
     \<Rightarrow> dvec3 \<times> PhotonVecs \<times> rng" where
  "emitPhoton_store lib pm r fl ia brdf thread vecs g =
     (if type ia = DIFFUSE then
        let brdf = smul pi brdf;
            (first, g1) = and_trial (depth r = 0) (non_caustic_reject pm) g
        in if first then
             let vecs = vecs\<lparr>direct_vecs :=
                          emplace_back (direct_vecs vecs) thread
                            (Photon_of (sdiv fl (non_caustic_reject pm)) (Interaction.position ia)
                               (Ray.direction r))\<rparr>
             in (brdf, shadow_scan lib pm r ia thread vecs, g1)
           else if specular r then
             (brdf,
              vecs\<lparr>caustic_vecs :=
                     emplace_back (caustic_vecs vecs) thread
                       (Photon_of fl (Interaction.position ia) (Ray.direction r))\<rparr>,
              g1)
           else
             let (second, g2) = Random_trial (non_caustic_reject pm) g1
             in if second then
                  (brdf,
                   vecs\<lparr>indirect_vecs :=
                          emplace_back (indirect_vecs vecs) thread
                            (Photon_of (sdiv fl (non_caustic_reject pm)) (Interaction.position ia)
                               (Ray.direction r))\<rparr>,
                   g2)
                else (brdf, vecs, g2)
      else
        let (scan, g1) = and_trial (type ia = REFLECT \<and> depth r = 0) (non_caustic_reject pm) g
        in if scan then (brdf, shadow_scan lib pm r ia thread vecs, g1)
           else (brdf, vecs, g1))"

text \<open>The survival probability of the Russian roulette in \<^verbatim>\<open>emitPhoton\<close>.\<close>

definition emitPhoton_survive :: "PhotonMapper \<Rightarrow> Ray \<Rightarrow> dvec3 \<Rightarrow> dvec3 \<Rightarrow> real" where
  "emitPhoton_survive pm r fl new_flux =
     min (if depth r > min_ray_depth pm then 0.9 else 1.0) (compMax new_flux / compMax fl)"

text \<open>
  \<^verbatim>\<open>PhotonMapper::emitPhoton\<close>. The depth of the next ray is set by \<^verbatim>\<open>Ray(interaction)\<close>,
  whose code is not at hand, so the recursion is bounded by fuel: \<open>None\<close> is a run that
  needs more calls than the fuel allows.
\<close>

fun emitPhoton ::
  "nat \<Rightarrow> Lib \<Rightarrow> PhotonMapper \<Rightarrow> Ray \<Rightarrow> dvec3 \<Rightarrow> nat \<Rightarrow> PhotonVecs \<Rightarrow> rng
     \<Rightarrow> (PhotonVecs \<times> rng) option" where
  "emitPhoton 0 lib pm r fl thread vecs g = None"
| "emitPhoton (Suc fuel) lib pm r fl thread vecs g =
     (if depth r = max_ray_depth pm then Some (vecs, g)
      else
        case intersect pm r of
          None \<Rightarrow> Some (vecs, g)
        | Some intersection \<Rightarrow>
            let (interaction, g1) = Interaction_ctor lib intersection r g;
                (new_ray, g2) = Ray_of pm interaction g1;
                brdf = BRDF lib interaction (Ray.direction new_ray);
                (brdf, vecs', g3) = emitPhoton_store lib pm r fl interaction brdf thread vecs g2;
                new_flux = fl * brdf;
                survive = emitPhoton_survive pm r fl new_flux;
                (alive, g4) = Random_trial survive g3
            in if alive then emitPhoton fuel lib pm new_ray (sdiv new_flux survive) thread vecs' g4
               else Some (vecs', g4))"

subsection \<open>Pass 2: the radiance estimate\<close>

definition hasShadowPhotons :: "PhotonMapper \<Rightarrow> Interaction \<Rightarrow> bool" where
  "hasShadowPhotons pm ia =
     (\<not> radiusEmpty (linear_shadow_map pm) (Interaction.position ia) (max_radius pm))"

text \<open>The closure \<^verbatim>\<open>evaluateDirect\<close> of \<^verbatim>\<open>PhotonMapper::sampleRay\<close>.\<close>

definition evaluateDirect :: "PhotonMapper \<Rightarrow> Interaction \<Rightarrow> rng \<Rightarrow> dvec3 \<times> rng" where
  "evaluateDirect pm ia g =
     (if use_shadow_photons pm \<and> hasShadowPhotons pm ia
         \<and> radiusEmpty (linear_direct_map pm) (Interaction.position ia) (max_radius pm)
      then (0, g)
      else sampleDirect pm ia g)"

text \<open>
  The diffuse branch of \<^verbatim>\<open>PhotonMapper::sampleRay\<close>, after the caustic estimate: the
  choice between the closure \<^verbatim>\<open>evaluateDiffuse\<close>, which bounces once more, and the
  estimate from the photon maps. The two ways out are arguments: \<open>bounce\<close> stands for
  \<^verbatim>\<open>return evaluateDiffuse()\<close>, and \<open>from_maps direct indirect_photons\<close> for the
  return of the sum with \<open>direct\<close> as computed and the indirect term still to be estimated
  from \<open>indirect_photons\<close>.
\<close>

definition attempt_termination ::
  "Lib \<Rightarrow> PhotonMapper \<Rightarrow> Interaction
     \<Rightarrow> 'r \<Rightarrow> ((error + dvec3) \<Rightarrow> Photon SearchResult list \<Rightarrow> 'r) \<Rightarrow> 'r" where
  "attempt_termination lib pm ia bounce from_maps =
     (let indirect_photons =
            knnSearch (linear_indirect_map pm) (Interaction.position ia)
              (k_nearest_photons pm) (max_radius pm)
      in if length indirect_photons = k_nearest_photons pm \<or> direct_visualization pm then
           let direct_photons =
                 knnSearch (linear_direct_map pm) (Interaction.position ia)
                   (k_nearest_photons pm) (max_radius pm)
           in if direct_photons \<noteq> [] then
                from_maps
                  (estimateRadiance (CoordinateSystem.normal (cs ia)) (BRDF lib ia) direct_photons)
                  indirect_photons
              else if \<not> direct_visualization pm \<and> use_shadow_photons pm
                      \<and> \<not> hasShadowPhotons pm ia then
                bounce
              else from_maps (Inr 0) indirect_photons
         else bounce)"

definition sampleRay_diffuse ::
  "Lib \<Rightarrow> PhotonMapper \<Rightarrow> Ray \<Rightarrow> Interaction
     \<Rightarrow> 'r \<Rightarrow> ((error + dvec3) \<Rightarrow> Photon SearchResult list \<Rightarrow> 'r) \<Rightarrow> 'r" where
  "sampleRay_diffuse lib pm r ia bounce from_maps =
     (if \<not> direct_visualization pm
         \<and> (depth r = 0 \<or> specular r \<or> Interaction.t ia \<ge> min_bounce_distance pm)
      then bounce
      else attempt_termination lib pm ia bounce from_maps)"

text \<open>
  \<^verbatim>\<open>PhotonMapper::sampleRay\<close>, bounded by fuel as the tracer is. The result is \<open>None\<close>
  when the fuel runs out, an error when a vector is read where it has no element, and the
  radiance with the random engine otherwise.
\<close>

fun sampleRay ::
  "nat \<Rightarrow> Lib \<Rightarrow> PhotonMapper \<Rightarrow> Ray \<Rightarrow> rng \<Rightarrow> (error + dvec3 \<times> rng) option" where
  "sampleRay 0 lib pm r g = None"
| "sampleRay (Suc fuel) lib pm r g =
     (if depth r = max_ray_depth pm then Some (Inr (0, g))
      else
        case intersect pm r of
          None \<Rightarrow> Some (Inr (0, g))
        | Some intersection \<Rightarrow>
            let ((absorbed, survive), g1) = absorb pm r intersection g
            in if absorbed then Some (Inr (0, g1))
               else
                 let (interaction, g2) = Interaction_ctor lib intersection r g1;
                     emittance' =
                       (if depth r = 0 \<or> specular r then emittance (Interaction.material interaction)
                        else 0)
                 in if type interaction \<noteq> DIFFUSE then
                      if depth r \<noteq> 0 \<and> \<not> specular r then Some (Inr (sdiv emittance' survive, g2))
                      else
                        let (new_ray, g3) = Ray_of pm interaction g2
                        in (case sampleRay fuel lib pm new_ray g3 of
                              None \<Rightarrow> None
                            | Some (Inl e) \<Rightarrow> Some (Inl e)
                            | Some (Inr (radiance, g4)) \<Rightarrow>
                                Some (Inr (sdiv (emittance'
                                         + radiance * BRDF lib interaction (Ray.direction new_ray))
                                        survive, g4)))
                    else
                      (case estimateCausticRadiance (CoordinateSystem.normal (cs interaction))
                              (BRDF lib interaction)
                              (knnSearch (linear_caustic_map pm) (Interaction.position interaction)
                                 (k_nearest_photons pm) (max_caustic_radius pm)) of
                         Inl e \<Rightarrow> Some (Inl e)
                       | Inr caustics \<Rightarrow>
                           sampleRay_diffuse lib pm r interaction
                             (let (new_ray, g3) = Ray_of pm interaction g2;
                                  brdf = BRDF lib interaction (Ray.direction new_ray)
                              in (case sampleRay fuel lib pm new_ray g3 of
                                    None \<Rightarrow> None
                                  | Some (Inl e) \<Rightarrow> Some (Inl e)
                                  | Some (Inr (radiance, g4)) \<Rightarrow>
                                      let indirect = smul pi radiance;
                                          (direct, g5) = evaluateDirect pm interaction g4
                                      in Some (Inr (sdiv (emittance' + caustics
                                                  + (direct + indirect) * brdf) survive, g5))))
                             (\<lambda>direct indirect_photons.
                                case direct of
                                  Inl e \<Rightarrow> Some (Inl e)
                                | Inr direct \<Rightarrow>
                                    (case estimateRadiance (CoordinateSystem.normal (cs interaction))
                                            (BRDF lib interaction) indirect_photons of
                                       Inl e \<Rightarrow> Some (Inl e)
                                     | Inr indirect \<Rightarrow>
                                         Some (Inr (sdiv (emittance' + caustics + direct + indirect)
                                                 survive, g2))))))"

section \<open>The earlier variant of the photon mapper\<close>

text \<open>
  The repository keeps an earlier variant of the photon mapper, which works on the
  intersection itself and passes the depth of the ray as an argument. Two parts of it are
  modelled for comparison. Its caustic estimate divides by the squared radius where the
  later one multiplies by its inverse.
\<close>

definition estimateCausticRadiance_earlier_loop ::
  "dvec3 \<Rightarrow> (dvec3 \<Rightarrow> dvec3) \<Rightarrow> real \<Rightarrow> Photon SearchResult list \<Rightarrow> dvec3 \<Rightarrow> dvec3" where
  "estimateCausticRadiance_earlier_loop n brdf max_squared_radius photons radiance0 =
     foldl (\<lambda>radiance p.
        if dot (Photon.direction (data p)) n \<ge> 0 then radiance
        else
          let wp = max 0 (1 - sqrt (distance2 p / max_squared_radius)) in
          radiance + smul wp (flux (data p) * brdf (Photon.direction (data p))))
       radiance0 photons"

definition estimateCausticRadiance_earlier ::
  "dvec3 \<Rightarrow> (dvec3 \<Rightarrow> dvec3) \<Rightarrow> Photon SearchResult list \<Rightarrow> error + dvec3" where
  "estimateCausticRadiance_earlier n brdf photons =
     (let radiance = 0 in
      if photons = [] then Inr radiance
      else
        case vector_back photons of
          Inl e \<Rightarrow> Inl e
        | Inr b \<Rightarrow>
            let max_squared_radius = distance2 b;
                radiance = estimateCausticRadiance_earlier_loop n brdf max_squared_radius photons radiance
            in Inr (sdiv radiance (max_squared_radius / 3)))"

text \<open>
  The storage policy of the diffuse case of its \<^verbatim>\<open>emitPhoton\<close>, which tests the depth
  first: at depth \<open>0\<close> a photon is stored as a direct photon or not at all. \<open>scan\<close> is the
  scan for shadow photons from the hit and \<open>here\<close> the position of the intersection.
\<close>

definition emitPhoton_store_earlier ::
  "(PhotonVecs \<Rightarrow> PhotonVecs) \<Rightarrow> PhotonMapper \<Rightarrow> Ray \<Rightarrow> nat \<Rightarrow> dvec3 \<Rightarrow> dvec3 \<Rightarrow> nat \<Rightarrow> PhotonVecs
     \<Rightarrow> rng \<Rightarrow> PhotonVecs \<times> rng" where
  "emitPhoton_store_earlier scan pm r ray_depth fl here thread vecs g =
     (if ray_depth = 0 then
        let (first, g1) = Random_trial (non_caustic_reject pm) g
        in if first then
             (scan (vecs\<lparr>direct_vecs :=
                      emplace_back (direct_vecs vecs) thread
                        (Photon_of (sdiv fl (non_caustic_reject pm)) here (Ray.direction r))\<rparr>),
              g1)
           else (vecs, g1)
      else if specular r then
        (vecs\<lparr>caustic_vecs :=
                emplace_back (caustic_vecs vecs) thread (Photon_of fl here (Ray.direction r))\<rparr>,
         g)
      else
        let (second, g1) = Random_trial (non_caustic_reject pm) g
        in if second then
             (vecs\<lparr>indirect_vecs :=
                     emplace_back (indirect_vecs vecs) thread
                       (Photon_of (sdiv fl (non_caustic_reject pm)) here (Ray.direction r))\<rparr>,
              g1)
           else (vecs, g1))"

section \<open>Reference formulations\<close>

text \<open>
  The definitions of this section follow the words of the specification, not the code;
  the theorems compare them with the code.
\<close>

primrec vsum :: "dvec3 list \<Rightarrow> dvec3" where
  "vsum [] = 0"
| "vsum (v # vs) = v + vsum vs"

text \<open>
  The caustic estimate as specified: \<open>r\<^sup>2\<close> is the squared distance of the last
  neighbour, photons from the wrong side are skipped, each other photon weighs
  \<open>max 0 (1 - sqrt (d\<^sup>2 / r\<^sup>2))\<close>, and the result is three times the weighted sum
  over \<open>r\<^sup>2\<close>.
\<close>

definition caustic_estimate_spec ::
  "dvec3 \<Rightarrow> (dvec3 \<Rightarrow> dvec3) \<Rightarrow> Photon SearchResult list \<Rightarrow> dvec3" where
  "caustic_estimate_spec n brdf photons =
     (let r2 = distance2 (last photons);
          kept = filter (\<lambda>p. \<not> dot (Photon.direction (data p)) n \<ge> 0) photons;
          wp = (\<lambda>p. max 0 (1 - sqrt (distance2 p / r2)));
          weighted_sum =
            vsum (map (\<lambda>p. smul (wp p) (flux (data p) * brdf (Photon.direction (data p)))) kept)
      in sdiv (smul 3 weighted_sum) r2)"

text \<open>
  Snell's law for unit vectors: \<open>d\<close> is the direction refracted from the incoming
  direction \<open>i\<close> at the normal \<open>n\<close> with ratio \<open>eta\<close> when it is a unit vector on the far side
  of the surface whose component along the surface is \<open>eta\<close> times that of \<open>i\<close>, which
  makes the sine of its angle to the normal \<open>eta\<close> times the sine of the angle of incidence.
\<close>

definition tangential :: "dvec3 \<Rightarrow> dvec3 \<Rightarrow> dvec3" where
  "tangential n v = v - smul (dot v n) n"

definition snell :: "real \<Rightarrow> dvec3 \<Rightarrow> dvec3 \<Rightarrow> dvec3 \<Rightarrow> bool" where
  "snell eta i n d =
     (dot d d = 1 \<and> dot d n \<le> 0 \<and> tangential n d = smul eta (tangential n i))"

text \<open>
  The emission budget as specified, in exact arithmetic: the emitted flux is the emittance
  times the area, and the number of emissions is the share of the target \<open>N\<close> in proportion
  to the 1-norm of the emitted flux, rounded to the nearest integer.
\<close>

fun norm1 :: "dvec3 \<Rightarrow> real" where
  "norm1 (dvec3 a b c) = \<bar>a\<bar> + \<bar>b\<bar> + \<bar>c\<bar>"

definition emitted_flux :: "Surface \<Rightarrow> dvec3" where
  "emitted_flux l = smul (area l) (emittance (Surface.material l))"

definition share_spec :: "nat \<Rightarrow> Surface list \<Rightarrow> Surface \<Rightarrow> real" where
  "share_spec N emissives l =
     real N * norm1 (emitted_flux l) / sum_list (map (\<lambda>e. norm1 (emitted_flux e)) emissives)"

definition emissions_rounded :: "nat \<Rightarrow> Surface list \<Rightarrow> Surface \<Rightarrow> nat" where
  "emissions_rounded N emissives l = nat (round (share_spec N emissives l))"

text \<open>
  The same in double precision: the 1-norm of a flux and the total of the 1-norms, added
  from left to right; the share as the double product of \<open>N\<close> and the double quotient of
  the two; and the number of emissions as that product with its fractional part dropped,
  or rounded to the nearest integer. \<open>share_of_doubles\<close> is the exact product of
  \<open>N\<close> and the exact quotient of the same two doubles.
\<close>

fun norm1_double :: "dvec3 \<Rightarrow> real" where
  "norm1_double (dvec3 a b c) = double_add (double_add \<bar>a\<bar> \<bar>b\<bar>) \<bar>c\<bar>"

definition total_norm1 :: "Surface list \<Rightarrow> real" where
  "total_norm1 emissives =
     foldl (\<lambda>acc e. double_add acc (norm1_double (light_flux e))) 0 emissives"

definition share_double :: "nat \<Rightarrow> Surface list \<Rightarrow> Surface \<Rightarrow> real" where
  "share_double N emissives l =
     double_mul (double_of_size_t N)
       (double_div (norm1_double (light_flux l)) (total_norm1 emissives))"

definition emissions_truncated :: "nat \<Rightarrow> Surface list \<Rightarrow> Surface \<Rightarrow> nat" where
  "emissions_truncated N emissives l = nat \<lfloor>share_double N emissives l\<rfloor>"

definition emissions_rounded_double :: "nat \<Rightarrow> Surface list \<Rightarrow> Surface \<Rightarrow> nat" where
  "emissions_rounded_double N emissives l = nat (round (share_double N emissives l))"

definition share_of_doubles :: "nat \<Rightarrow> Surface list \<Rightarrow> Surface \<Rightarrow> real" where
  "share_of_doubles N emissives l =
     real N * norm1_double (light_flux l) / total_norm1 emissives"

text \<open>
  The three consecutive lengths into which the branch selection cuts the unit interval
  (the comment in \<^verbatim>\<open>selectType\<close>: \<^verbatim>\<open>R + (1 - R) * T + (1 - R) * (1 - T) = 1\<close>).
\<close>

definition branch_probability :: "real \<Rightarrow> real \<Rightarrow> Type \<Rightarrow> real" where
  "branch_probability R T ty =
     (case ty of REFLECT \<Rightarrow> R | REFRACT \<Rightarrow> (1 - R) * T | DIFFUSE \<Rightarrow> (1 - R) * (1 - T))"

text \<open>
  The two ways out of the diffuse branch of \<^verbatim>\<open>sampleRay\<close>, as values: the bounce, and the
  estimate from the maps with its direct term and the indirect photons.
\<close>

datatype way_out = Bounce | FromMaps "error + dvec3" "Photon SearchResult list"

definition nonneg :: "dvec3 \<Rightarrow> bool" where
  "nonneg v = (0 \<le> vx v \<and> 0 \<le> vy v \<and> 0 \<le> vz v)"

section \<open>Concrete scenes\<close>

text \<open>Small materials, surfaces, maps and settings on which the theorems are run.\<close>

definition lib0 :: Lib where
  "lib0 =
     \<lparr>Fresnel_dielectric = (\<lambda>a b c. 1 / 4),
      Fresnel_conductor = (\<lambda>a b c. dvec3 1 1 1),
      cs_to = (\<lambda>n v. v),
      cs_from = (\<lambda>n v. v),
      EPSILON = 1 / 10000000\<rparr>"

definition matte :: "dvec3 \<Rightarrow> Material" where
  "matte e =
     \<lparr>perfect_mirror = False, complex_ior = None, transparency = 0, ior = 1,
      external_ior = 1, opaque = True, rough_specular = False, emittance = e,
      can_diffusely_reflect = True,
      specularMicrofacetNormal = (\<lambda>v g. (dvec3 0 0 1, g)),
      SpecularBRDF = (\<lambda>a b c. dvec3 1 1 1),
      DiffuseBRDF = (\<lambda>a b. dvec3 (1 / (2 * pi)) (1 / (2 * pi)) (1 / (2 * pi)))\<rparr>"

definition glass :: Material where
  "glass = (matte 0)\<lparr>transparency := 1, ior := 3 / 2, opaque := False,
                      can_diffusely_reflect := False\<rparr>"

definition mirror :: Material where
  "mirror = (matte 0)\<lparr>perfect_mirror := True, can_diffusely_reflect := False\<rparr>"

text \<open>
  A horizontal patch with geometric normal \<open>(0, 0, 1)\<close> whose interpolated normal leans
  to \<open>(3/5, 0, 4/5)\<close>.
\<close>

definition patch :: "Material \<Rightarrow> real \<Rightarrow> Surface" where
  "patch m a =
     \<lparr>Surface.normal = (\<lambda>p. dvec3 0 0 1),
      interpolatedNormal = (\<lambda>c. dvec3 (3 / 5) 0 (4 / 5)),
      Surface.material = m,
      area = a\<rparr>"

definition hit :: "Material \<Rightarrow> bool \<Rightarrow> Intersection" where
  "hit m smooth = \<lparr>Intersection.t = 1, surface = patch m 1, uv = (0, 0), interpolate = smooth\<rparr>"

definition empty_map :: "'a LinearOctree" where
  "empty_map = \<lparr>knnSearch = (\<lambda>q k r. []), radiusEmpty = (\<lambda>q r. True)\<rparr>"

definition json0 :: photon_map_json where
  "json0 =
     \<lparr>json_caustic_factor = 2, json_emissions = 5, json_k_nearest_photons = None,
      json_max_radius = 1 / 10, json_max_caustic_radius = 1 / 20,
      json_max_photons_per_octree_leaf = 8, json_direct_visualization = None,
      json_use_shadow_photons = None\<rparr>"

text \<open>
  A scene of one matte floor of reflectance one half, which the rays that start at height
  one hit at distance one and no other ray hits, with empty photon maps, no absorption and
  no direct light; the next ray leaves the hit point upwards, one level deeper.
\<close>

definition pm0 :: PhotonMapper where
  "pm0 =
     PhotonMapper_settings json0
       \<lparr>k_nearest_photons = 0, non_caustic_reject = 0, max_radius = 0, max_caustic_radius = 0,
        max_node_data = 0, direct_visualization = False, use_shadow_photons = False,
        min_bounce_distance = 0, max_ray_depth = 64, min_ray_depth = 3,
        linear_caustic_map = empty_map, linear_direct_map = empty_map,
        linear_indirect_map = empty_map, linear_shadow_map = empty_map,
        intersect = (\<lambda>r. if vz (start r) = 1 then Some (hit (matte 0) False) else None),
        sampleDirect = (\<lambda>ia g. (0, g)),
        absorb = (\<lambda>r i g. ((False, 1), g)),
        Ray_of = (\<lambda>ia g.
          (\<lparr>start = Interaction.position ia, direction = dvec3 0 0 1,
            medium_ior = n1 ia, specular = (type ia \<noteq> DIFFUSE),
            depth = Suc (depth (ray ia))\<rparr>, g))\<rparr>"

definition no_vecs :: PhotonVecs where
  "no_vecs = \<lparr>direct_vecs = [[]], indirect_vecs = [[]], caustic_vecs = [[]], shadow_vecs = [[]]\<rparr>"

text \<open>A ray that falls straight down from height one, at the given depth and flag.\<close>

definition down :: "nat \<Rightarrow> bool \<Rightarrow> Ray" where
  "down d s =
     \<lparr>start = dvec3 0 0 1, direction = dvec3 0 0 (- 1), medium_ior = 1, specular = s, depth = d\<rparr>"

text \<open>A search result: a photon of unit flux with the given direction and squared distance.\<close>

definition found :: "dvec3 \<Rightarrow> real \<Rightarrow> Photon SearchResult" where
  "found d r2 = \<lparr>data = Photon_of (dvec3 1 1 1) 0 d, distance2 = r2\<rparr>"

definition up :: dvec3 where
  "up = dvec3 0 0 1"

definition grey :: "dvec3 \<Rightarrow> dvec3" where
  "grey d = dvec3 (1 / 2) (1 / 2) (1 / 2)"

text \<open>The normals of a horizontal surface seen from above.\<close>

definition level :: HitNormals where
  "level = \<lparr>HitNormals.normal = up, specular_normal = up, shading_normal = up\<rparr>"

text \<open>A dielectric that lets half of the light that is not reflected through.\<close>

definition frosted :: Material where
  "frosted = glass\<lparr>transparency := 1 / 2\<rparr>"

text \<open>
  The interaction of a ray with the matte floor when the number drawn for the branch is
  \<open>3/4\<close>, which selects the diffuse branch.
\<close>

definition diffuse_hit :: "Ray \<Rightarrow> Interaction" where
  "diffuse_hit r = fst (Interaction_ctor lib0 (hit (matte 0) False) r (sconst (3 / 4)))"

definition white :: dvec3 where
  "white = dvec3 1 1 1"

text \<open>
  Two lights of area one: a dim red one of flux \<open>(19, 0, 0)\<close> and a bright white one of
  flux \<open>(27, 27, 27)\<close>; two more of fluxes \<open>(29, 0, 0)\<close> and \<open>(71, 0, 0)\<close>; and settings
  that ask for ten emissions with no caustic scaling.
\<close>

definition dim :: Surface where
  "dim = patch (matte (dvec3 19 0 0)) 1"

definition bright :: Surface where
  "bright = patch (matte (dvec3 27 27 27)) 1"

definition faint :: Surface where
  "faint = patch (matte (dvec3 29 0 0)) 1"

definition strong :: Surface where
  "strong = patch (matte (dvec3 71 0 0)) 1"

definition json1 :: photon_map_json where
  "json1 = json0\<lparr>json_caustic_factor := 1, json_emissions := 10\<rparr>"

text \<open>
  The scene above with \<^verbatim>\<open>direct_visualization\<close> switched on; a photon map that answers
  every search with one photon; the scene with such maps and \<open>k = 1\<close>; and a diffuse hit
  at distance \<open>1/4\<close>, nearer than the minimal bounce distance \<open>1/2\<close>.
\<close>

definition pm_dv :: PhotonMapper where
  "pm_dv = pm0\<lparr>direct_visualization := True\<rparr>"

definition one_photon_map :: "Photon LinearOctree" where
  "one_photon_map =
     \<lparr>knnSearch = (\<lambda>q k r. [found (- up) (1 / 100)]), radiusEmpty = (\<lambda>q r. False)\<rparr>"

definition pm_k1 :: PhotonMapper where
  "pm_k1 = pm0\<lparr>k_nearest_photons := 1, linear_direct_map := one_photon_map,
                 linear_indirect_map := one_photon_map\<rparr>"

definition near_hit :: Interaction where
  "near_hit = (diffuse_hit (down 1 False))\<lparr>Interaction.t := 1 / 4\<rparr>"

section \<open>Vector arithmetic\<close>

lemma dvec3_add_assoc: "(a :: dvec3) + b + c = a + (b + c)"
  by (cases a; cases b; cases c) simp

lemma dvec3_add_zero: "(a :: dvec3) + 0 = a"
  by (cases a) (simp add: zero_dvec3_def)

lemma dvec3_zero_add: "(0 :: dvec3) + a = a"
  by (cases a) (simp add: zero_dvec3_def)

lemma smul_inverse_sdiv: "smul (1 / s) v = sdiv v s"
  by (cases v) simp

section \<open>The density estimates\<close>

text \<open>
  The loop of the caustic estimate adds, to what it starts from, the weighted
  contributions of the photons it does not skip.
\<close>

lemma caustic_loop_vsum:
  "estimateCausticRadiance_loop n brdf iv photons acc =
     acc + vsum (map (\<lambda>p. smul (max 0 (1 - sqrt (distance2 p * iv)))
                         (flux (data p) * brdf (Photon.direction (data p))))
               (filter (\<lambda>p. \<not> dot (Photon.direction (data p)) n \<ge> 0) photons))"
  unfolding estimateCausticRadiance_loop_def
proof (induction photons arbitrary: acc)
  case Nil
  show ?case by (simp add: dvec3_add_zero)
next
  case (Cons p ps)
  show ?case by (simp add: Cons.IH dvec3_add_assoc Let_def)
qed

lemma sorted_last_greatest:
  "sorted (map f xs) \<Longrightarrow> x \<in> set xs \<Longrightarrow> f x \<le> f (last xs)"
proof (induction xs)
  case Nil
  then show ?case by simp
next
  case (Cons a as)
  then show ?case by (cases "as = []") auto
qed

text \<open>
  C7. For a search result that is not empty, \<^verbatim>\<open>estimateCausticRadiance\<close> returns the
  caustic estimate of the specification: with \<open>r\<^sup>2\<close> the squared distance of the last
  photon found, it skips the photons whose direction has a nonnegative product with the
  normal, weighs each other photon by \<open>max 0 (1 - sqrt (d\<^sup>2 / r\<^sup>2))\<close>, sums flux times
  BRDF times weight, and returns three times the sum over \<open>r\<^sup>2\<close>. The code multiplies by
  \<open>1 / r\<^sup>2\<close> where the specification divides by \<open>r\<^sup>2\<close>, which is the same real number
  (for \<open>r\<^sup>2 = 0\<close> both are a division by zero). The last photon is the farthest one
  whenever the search returns its results in ascending order of distance.
\<close>

theorem caustic_estimate_refines_spec:
  "photons \<noteq> [] \<Longrightarrow>
     estimateCausticRadiance n brdf photons = Inr (caustic_estimate_spec n brdf photons)
     \<and> (sorted (map distance2 photons) \<longrightarrow>
          (\<forall>p \<in> set photons. distance2 p \<le> distance2 (last photons)))"
proof
  assume ne: "photons \<noteq> []"
  then show "estimateCausticRadiance n brdf photons = Inr (caustic_estimate_spec n brdf photons)"
    by (simp add: estimateCausticRadiance_def caustic_estimate_spec_def vector_back_def Let_def
        caustic_loop_vsum dvec3_zero_add smul_inverse_sdiv)
  show "sorted (map distance2 photons) \<longrightarrow>
          (\<forall>p \<in> set photons. distance2 p \<le> distance2 (last photons))"
    using sorted_last_greatest[of distance2 photons] by blast
qed

text \<open>
  Three photons at squared distances \<open>0\<close>, \<open>1/2\<close> and \<open>1\<close>, the second one from the wrong
  side: only the first contributes, with weight one.
\<close>

theorem caustic_estimate_refines_spec_witness:
  "[found (- up) 0, found up (1 / 2), found (- up) 1] \<noteq> []
   \<and> sorted (map distance2 [found (- up) 0, found up (1 / 2), found (- up) 1])
   \<and> estimateCausticRadiance up grey [found (- up) 0, found up (1 / 2), found (- up) 1]
       = Inr (dvec3 (3 / 2) (3 / 2) (3 / 2))
   \<and> caustic_estimate_spec up grey [found (- up) 0, found up (1 / 2), found (- up) 1]
       = dvec3 (3 / 2) (3 / 2) (3 / 2)
   \<and> distance2 (found up (1 / 2)) \<le> distance2 (last [found (- up) 0, found up (1 / 2), found (- up) 1])"
  using caustic_estimate_refines_spec
          [of "[found (- up) 0, found up (1 / 2), found (- up) 1]" up grey]
  by (simp add: caustic_estimate_spec_def found_def up_def grey_def Photon_of_def zero_dvec3_def)

text \<open>The caustic estimate of the earlier variant is the same estimate.\<close>

lemma caustic_earlier_loop_vsum:
  "estimateCausticRadiance_earlier_loop n brdf r2 photons acc =
     acc + vsum (map (\<lambda>p. smul (max 0 (1 - sqrt (distance2 p / r2)))
                         (flux (data p) * brdf (Photon.direction (data p))))
               (filter (\<lambda>p. \<not> dot (Photon.direction (data p)) n \<ge> 0) photons))"
  unfolding estimateCausticRadiance_earlier_loop_def
proof (induction photons arbitrary: acc)
  case Nil
  show ?case by (simp add: dvec3_add_zero)
next
  case (Cons p ps)
  show ?case by (simp add: Cons.IH dvec3_add_assoc Let_def)
qed

lemma sdiv_third: "sdiv v (s / 3) = sdiv (smul 3 v) s"
  by (cases v) simp

lemma caustic_estimate_earlier_refines_spec:
  "photons \<noteq> [] \<Longrightarrow>
     estimateCausticRadiance_earlier n brdf photons = Inr (caustic_estimate_spec n brdf photons)"
  by (simp add: estimateCausticRadiance_earlier_def caustic_estimate_spec_def vector_back_def
      Let_def caustic_earlier_loop_vsum dvec3_zero_add sdiv_third)

text \<open>
  C9. Reading the last element of an empty vector is an error, and neither estimate
  reaches it: on an empty search result \<^verbatim>\<open>estimateRadiance\<close> and
  \<^verbatim>\<open>estimateCausticRadiance\<close> return zero radiance before they look at the last photon,
  and on every search result, empty, underfilled or full, they return a radiance and no
  error.
\<close>

theorem estimates_of_no_photons:
  "vector_back ([] :: Photon SearchResult list) = Inl BackOfEmptyVector
   \<and> estimateRadiance n brdf [] = Inr 0
   \<and> estimateCausticRadiance n brdf [] = Inr 0
   \<and> (\<forall>photons. \<exists>radiance. estimateRadiance n brdf photons = Inr radiance)
   \<and> (\<forall>photons. \<exists>radiance. estimateCausticRadiance n brdf photons = Inr radiance)"
  by (simp add: estimateRadiance_def estimateCausticRadiance_def vector_back_def Let_def)

theorem estimates_of_no_photons_witness:
  "estimateRadiance up grey [] = Inr (dvec3 0 0 0)
   \<and> estimateCausticRadiance up grey [] = Inr (dvec3 0 0 0)
   \<and> (\<exists>radiance. estimateRadiance up grey [found (- up) 1] = Inr radiance)"
  using estimates_of_no_photons [of up grey]
  by (simp add: zero_dvec3_def)

section \<open>Refraction\<close>

text \<open>
  Under total internal reflection \<^verbatim>\<open>refractSpecular\<close> does what
  \<^verbatim>\<open>reflectSpecular\<close> does.
\<close>

lemma refract_tir_is_reflect:
  "1 - pow2 (n1' / n2') * (1 - pow2 (dot (specular_normal ia) i)) < 0 \<Longrightarrow>
     refractSpecular eps r i ia n1' n2' = reflectSpecular eps r i ia n1'"
  by (cases i; cases "specular_normal ia")
     (simp add: refractSpecular_def reflectSpecular_def reflect_def Let_def mult.commute)

text \<open>
  The direction computed in the other branch obeys Snell's law when the incoming
  direction and the normal are unit vectors.
\<close>

lemma snell_refract:
  assumes unit_i: "dot i i = 1" and unit_n: "dot n n = 1"
    and k: "0 \<le> 1 - pow2 eta * (1 - pow2 (dot n i))"
  shows "snell eta i n
           (smul eta i - smul (eta * dot n i + sqrt (1 - pow2 eta * (1 - pow2 (dot n i)))) n)"
proof -
  obtain a b c where i: "i = dvec3 a b c" by (cases i)
  obtain d e f where n: "n = dvec3 d e f" by (cases n)
  define cs where "cs = a * d + b * e + c * f"
  define k where "k = 1 - eta * eta * (1 - cs * cs)"
  define s where "s = sqrt k"
  have k0: "0 \<le> k" using k by (simp add: k_def cs_def pow2_def i n algebra_simps)
  have ss: "s * s = k" using k0 by (simp add: s_def)
  have ui: "a * a + b * b + c * c = 1" using unit_i by (simp add: i)
  have un: "d * d + e * e + f * f = 1" using unit_n by (simp add: n)
  have dn: "dot n i = cs" by (simp add: i n cs_def algebra_simps)
  let ?m = "eta * cs + s"
  let ?d = "dvec3 (eta * a - ?m * d) (eta * b - ?m * e) (eta * c - ?m * f)"
  have eq: "smul eta i - smul (eta * dot n i + sqrt (1 - pow2 eta * (1 - pow2 (dot n i)))) n = ?d"
    by (simp add: dn pow2_def k_def[symmetric] s_def[symmetric]) (simp add: i n)
  have dotdn: "dot ?d n = - s"
  proof -
    have "dot ?d n = eta * (a * d + b * e + c * f) - ?m * (d * d + e * e + f * f)"
      by (simp add: n algebra_simps)
    also have "\<dots> = eta * cs - ?m" by (simp add: un cs_def)
    finally show ?thesis by simp
  qed
  have dotdd: "dot ?d ?d = 1"
  proof -
    have "dot ?d ?d = eta * eta * (a * a + b * b + c * c)
                      - 2 * eta * ?m * (a * d + b * e + c * f)
                      + ?m * ?m * (d * d + e * e + f * f)"
      by (simp add: algebra_simps)
    also have "\<dots> = eta * eta - 2 * eta * ?m * cs + ?m * ?m"
      by (simp add: ui un cs_def)
    also have "\<dots> = eta * eta - eta * eta * cs * cs + s * s"
      by (simp add: algebra_simps)
    also have "\<dots> = 1"
      by (simp add: ss k_def algebra_simps)
    finally show ?thesis .
  qed
  have s0: "0 \<le> s" by (simp add: s_def k0)
  have tang: "tangential n ?d = smul eta (tangential n i)"
    unfolding tangential_def dotdn
    by (simp add: i n cs_def[symmetric] algebra_simps) (simp add: cs_def algebra_simps)
  show ?thesis
    unfolding eq snell_def using dotdd dotdn s0 tang by simp
qed

text \<open>
  C5. \<^verbatim>\<open>refractSpecular\<close> works with the ratio \<open>eta = n1 / n2\<close> and
  \<open>k = 1 - eta\<^sup>2 (1 - cos\<^sup>2 theta)\<close>, and marks the ray specular. When \<open>k < 0\<close> (total
  internal reflection) the ray it leaves is the one \<^verbatim>\<open>reflectSpecular\<close> leaves: the
  direction mirrored at the specular normal, the origin moved by \<open>+eps\<close> along the normal,
  the medium \<open>n1\<close>. Otherwise the direction is the refracted one, which obeys Snell's law
  with ratio \<open>eta\<close> for unit vectors, the origin is moved by \<open>-eps\<close> along the normal and
  the medium is \<open>n2\<close>.
\<close>

theorem refractSpecular_snell_or_reflection:
  "(let eta = n1' / n2';
        cos_theta = dot (specular_normal ia) i;
        k = 1 - eta\<^sup>2 * (1 - cos_theta\<^sup>2);
        (flag, r') = refractSpecular eps r i ia n1' n2'
    in specular r'
       \<and> (k < 0 \<longrightarrow>
            (flag, r') = reflectSpecular eps r i ia n1'
            \<and> Ray.direction r' = reflect i (specular_normal ia)
            \<and> start r' = start r + smul eps (HitNormals.normal ia)
            \<and> medium_ior r' = n1')
       \<and> (0 \<le> k \<longrightarrow>
            Ray.direction r' = smul eta i - smul (eta * cos_theta + sqrt k) (specular_normal ia)
            \<and> (dot i i = 1 \<and> dot (specular_normal ia) (specular_normal ia) = 1
                 \<longrightarrow> snell eta i (specular_normal ia) (Ray.direction r'))
            \<and> start r' = start r - smul eps (HitNormals.normal ia)
            \<and> medium_ior r' = n2'
            \<and> flag = (dot (shading_normal ia) (Ray.direction r') < 0)))"
proof -
  define k where "k = 1 - pow2 (n1' / n2') * (1 - pow2 (dot (specular_normal ia) i))"
  have k_eq: "1 - (n1' / n2')\<^sup>2 * (1 - (dot (specular_normal ia) i)\<^sup>2) = k"
    by (simp add: k_def pow2_def power2_eq_square)
  show ?thesis
  proof (cases "k < 0")
    case True
    then have "refractSpecular eps r i ia n1' n2' = reflectSpecular eps r i ia n1'"
      unfolding k_def by (rule refract_tir_is_reflect)
    with True show ?thesis
      unfolding Let_def k_eq by (simp add: reflectSpecular_def Let_def)
  next
    case False
    then have k0: "0 \<le> k" by simp
    have sn: "dot i i = 1 \<Longrightarrow> dot (specular_normal ia) (specular_normal ia) = 1 \<Longrightarrow>
        snell (n1' / n2') i (specular_normal ia)
          (smul (n1' / n2') i
            - smul (n1' / n2' * dot (specular_normal ia) i + sqrt k) (specular_normal ia))"
      using snell_refract[of i "specular_normal ia" "n1' / n2'"] k0 unfolding k_def by simp
    have unf: "refractSpecular eps r i ia n1' n2' =
      (dot (shading_normal ia)
          (smul (n1' / n2') i
            - smul (n1' / n2' * dot (specular_normal ia) i + sqrt k) (specular_normal ia)) < 0,
       r\<lparr>specular := True,
          direction := smul (n1' / n2') i
            - smul (n1' / n2' * dot (specular_normal ia) i + sqrt k) (specular_normal ia),
          start := start r - smul eps (HitNormals.normal ia),
          medium_ior := n2'\<rparr>)"
      unfolding refractSpecular_def Let_def k_def[symmetric] using k0 by simp
    show ?thesis
      unfolding Let_def k_eq using k0 sn by (simp add: unf)
  qed
qed

text \<open>
  From the dense side at ratio \<open>2\<close> and an angle whose cosine is \<open>4/5\<close> the ray is
  reflected; straight down into glass of index \<open>3/2\<close> it goes on straight down.
\<close>

theorem refractSpecular_snell_or_reflection_witness:
  "refractSpecular (EPSILON lib0) (down 0 False) (dvec3 (3 / 5) 0 (- 4 / 5)) level 2 1
     = reflectSpecular (EPSILON lib0) (down 0 False) (dvec3 (3 / 5) 0 (- 4 / 5)) level 2
   \<and> Ray.direction (snd (refractSpecular (EPSILON lib0) (down 0 False)
                             (dvec3 (3 / 5) 0 (- 4 / 5)) level 2 1)) = dvec3 (3 / 5) 0 (4 / 5)
   \<and> medium_ior (snd (refractSpecular (EPSILON lib0) (down 0 False)
                         (dvec3 (3 / 5) 0 (- 4 / 5)) level 2 1)) = 2
   \<and> Ray.direction (snd (refractSpecular (EPSILON lib0) (down 0 False)
                             (dvec3 0 0 (- 1)) level 1 (3 / 2))) = dvec3 0 0 (- 1)
   \<and> snell (2 / 3) (dvec3 0 0 (- 1)) up
        (Ray.direction (snd (refractSpecular (EPSILON lib0) (down 0 False)
                               (dvec3 0 0 (- 1)) level 1 (3 / 2))))
   \<and> start (snd (refractSpecular (EPSILON lib0) (down 0 False)
                    (dvec3 0 0 (- 1)) level 1 (3 / 2))) = dvec3 0 0 (1 - 1 / 10000000)
   \<and> medium_ior (snd (refractSpecular (EPSILON lib0) (down 0 False)
                         (dvec3 0 0 (- 1)) level 1 (3 / 2))) = 3 / 2"
  using refractSpecular_snell_or_reflection
          [of 2 1 level "dvec3 (3 / 5) 0 (- 4 / 5)" "EPSILON lib0" "down 0 False"]
        refractSpecular_snell_or_reflection
          [of 1 "3 / 2" level "dvec3 0 0 (- 1)" "EPSILON lib0" "down 0 False"]
  by (simp add: Let_def level_def up_def down_def lib0_def reflect_def reflectSpecular_def
        snell_def tangential_def power2_eq_square split: prod.splits)

section \<open>The interaction at a hit\<close>

lemma dot_uminus_right: "dot a (- b) = - dot a b"
  by (cases a; cases b) simp

text \<open>
  What the constructor \<^verbatim>\<open>Interaction::Interaction\<close> guarantees about its normals: the
  geometric normal never points along the ray, and neither does the shading normal when
  the ray is not exactly perpendicular to the geometric normal or when no normal is
  interpolated.
\<close>

lemma geometric_normal_faces_ray:
  "Interaction_normals m dir normal0 interpolated = (ins, n2', nrm, sn) \<Longrightarrow> dot dir nrm \<le> 0"
  by (auto simp: Interaction_normals_def Let_def dot_uminus_right split: if_splits prod.splits)

lemma shading_normal_faces_ray_off_grazing:
  "Interaction_normals m dir normal0 interpolated = (ins, n2', nrm, sn) \<Longrightarrow>
     dot dir normal0 \<noteq> 0 \<or> interpolated = None \<Longrightarrow> dot dir sn \<le> 0"
  by (auto simp: Interaction_normals_def Let_def dot_uminus_right
      split: if_splits prod.splits option.splits)

text \<open>
  C8. A ray along \<open>(1, 0, 0)\<close> meets a surface whose geometric normal is \<open>(0, 0, 1)\<close> and
  whose interpolated normal is \<open>(3/5, 0, 4/5)\<close>. The cosine with the geometric normal is
  zero, so neither \<^verbatim>\<open>cos_theta < 0.0\<close> nor \<^verbatim>\<open>cos_theta > 0.0\<close> holds: the interpolated
  normal passes the sign test against a product that is not negative either, nothing is
  flipped, and the shading normal of the interaction keeps a positive product \<open>3/5\<close> with
  the direction of the ray, in the frame \<^verbatim>\<open>cs\<close> of the interaction too.
\<close>

theorem shading_normal_at_grazing_incidence:
  "Interaction_normals (matte 0) (dvec3 1 0 0) (dvec3 0 0 1) (Some (dvec3 (3 / 5) 0 (4 / 5)))
     = (False, 1, dvec3 0 0 1, dvec3 (3 / 5) 0 (4 / 5))
   \<and> dot (dvec3 1 0 0) (dvec3 0 0 1) = 0
   \<and> dot (dvec3 1 0 0) (dvec3 (3 / 5) 0 (4 / 5)) > 0
   \<and> CoordinateSystem.normal (cs (fst (Interaction_ctor lib0 (hit (matte 0) True)
         ((down 0 False)\<lparr>direction := dvec3 1 0 0\<rparr>) (sconst (1 / 2)))))
       = dvec3 (3 / 5) 0 (4 / 5)"
  by (simp add: Interaction_normals_def Interaction_ctor_def selectType_def Random_unit_def
      matte_def hit_def patch_def down_def lib0_def Ray_at_def Let_def)

text \<open>
  C2. \<^verbatim>\<open>selectType\<close> returns \<^verbatim>\<open>REFLECT\<close> for a perfect mirror and for a material with a
  complex index of refraction (without drawing a number). Otherwise it draws \<open>p\<close> and,
  with \<open>R\<close> the dielectric Fresnel term at the product of the normal used and \<^verbatim>\<open>out\<close>
  and \<open>T\<close> the transparency, returns \<^verbatim>\<open>REFLECT\<close> if \<open>R > p\<close>, \<^verbatim>\<open>REFRACT\<close> if
  \<open>R + (1 - R) T > p\<close> and \<^verbatim>\<open>DIFFUSE\<close> otherwise. The three numbers \<open>R\<close>, \<open>(1 - R) T\<close>
  and \<open>(1 - R) (1 - T)\<close> add up to one, and when \<open>R\<close> and \<open>T\<close> lie between zero and one they
  are the lengths of the three consecutive intervals of \<open>p\<close> on which the three branches
  are chosen.
\<close>

theorem selectType_three_way:
  "(perfect_mirror m \<or> complex_ior m \<noteq> None \<longrightarrow>
      selectType lib m n1' n2' out' nrm g = (REFLECT, g))
   \<and> (\<not> (perfect_mirror m \<or> complex_ior m \<noteq> None) \<longrightarrow>
        (let R = Fresnel_dielectric lib n1' n2' (dot nrm out');
             T = transparency m;
             p = shd g;
             chosen = fst (selectType lib m n1' n2' out' nrm g)
         in selectType lib m n1' n2' out' nrm g
              = (if R > p then REFLECT else if R + (1 - R) * T > p then REFRACT else DIFFUSE,
                 stl g)
            \<and> branch_probability R T REFLECT + branch_probability R T REFRACT
                + branch_probability R T DIFFUSE = 1
            \<and> (0 \<le> R \<and> R \<le> 1 \<and> 0 \<le> T \<and> T \<le> 1 \<longrightarrow>
                 (\<forall>ty. 0 \<le> branch_probability R T ty)
                 \<and> (chosen = REFLECT) = (p < branch_probability R T REFLECT)
                 \<and> (chosen = REFRACT)
                     = (branch_probability R T REFLECT \<le> p
                        \<and> p < branch_probability R T REFLECT + branch_probability R T REFRACT)
                 \<and> (chosen = DIFFUSE)
                     = (branch_probability R T REFLECT + branch_probability R T REFRACT \<le> p))))"
proof (intro conjI impI)
  assume "perfect_mirror m \<or> complex_ior m \<noteq> None"
  then show "selectType lib m n1' n2' out' nrm g = (REFLECT, g)"
    by (auto simp: selectType_def)
next
  assume nm: "\<not> (perfect_mirror m \<or> complex_ior m \<noteq> None)"
  define R where "R = Fresnel_dielectric lib n1' n2' (dot nrm out')"
  define T where "T = transparency m"
  define p where "p = shd g"
  have sel: "selectType lib m n1' n2' out' nrm g
      = (if R > p then REFLECT else if R + (1 - R) * T > p then REFRACT else DIFFUSE, stl g)"
    using nm by (simp add: selectType_def Random_unit_def Let_def R_def T_def p_def)
  have total: "branch_probability R T REFLECT + branch_probability R T REFRACT
                + branch_probability R T DIFFUSE = 1"
    by (simp add: branch_probability_def algebra_simps)
  have ranges: "(\<forall>ty. 0 \<le> branch_probability R T ty)
      \<and> (fst (selectType lib m n1' n2' out' nrm g) = REFLECT) = (p < branch_probability R T REFLECT)
      \<and> (fst (selectType lib m n1' n2' out' nrm g) = REFRACT)
          = (branch_probability R T REFLECT \<le> p
             \<and> p < branch_probability R T REFLECT + branch_probability R T REFRACT)
      \<and> (fst (selectType lib m n1' n2' out' nrm g) = DIFFUSE)
          = (branch_probability R T REFLECT + branch_probability R T REFRACT \<le> p)"
    if r: "0 \<le> R \<and> R \<le> 1 \<and> 0 \<le> T \<and> T \<le> 1"
  proof -
    from r have step: "0 \<le> (1 - R) * T" and rest: "0 \<le> (1 - R) * (1 - T)"
      by simp_all
    have nn: "\<forall>ty. 0 \<le> branch_probability R T ty"
      using r step rest by (auto simp: branch_probability_def split: Type.splits)
    show ?thesis
      using nn step by (auto simp: sel branch_probability_def)
  qed
  show "let R = Fresnel_dielectric lib n1' n2' (dot nrm out');
             T = transparency m;
             p = shd g;
             chosen = fst (selectType lib m n1' n2' out' nrm g)
         in selectType lib m n1' n2' out' nrm g
              = (if R > p then REFLECT else if R + (1 - R) * T > p then REFRACT else DIFFUSE,
                 stl g)
            \<and> branch_probability R T REFLECT + branch_probability R T REFRACT
                + branch_probability R T DIFFUSE = 1
            \<and> (0 \<le> R \<and> R \<le> 1 \<and> 0 \<le> T \<and> T \<le> 1 \<longrightarrow>
                 (\<forall>ty. 0 \<le> branch_probability R T ty)
                 \<and> (chosen = REFLECT) = (p < branch_probability R T REFLECT)
                 \<and> (chosen = REFRACT)
                     = (branch_probability R T REFLECT \<le> p
                        \<and> p < branch_probability R T REFLECT + branch_probability R T REFRACT)
                 \<and> (chosen = DIFFUSE)
                     = (branch_probability R T REFLECT + branch_probability R T REFRACT \<le> p))"
    unfolding Let_def R_def[symmetric] T_def[symmetric] p_def[symmetric]
    using sel total ranges by blast
qed

text \<open>
  With \<open>R = 1/4\<close> and \<open>T = 1/2\<close> the branches change at \<open>1/4\<close> and at \<open>5/8\<close>.
\<close>

theorem selectType_three_way_witness:
  "selectType lib0 mirror 1 1 up up (sconst (1 / 8)) = (REFLECT, sconst (1 / 8))
   \<and> selectType lib0 frosted 1 (3 / 2) up up (sconst (1 / 8)) = (REFLECT, sconst (1 / 8))
   \<and> selectType lib0 frosted 1 (3 / 2) up up (sconst (1 / 2)) = (REFRACT, sconst (1 / 2))
   \<and> selectType lib0 frosted 1 (3 / 2) up up (sconst (3 / 4)) = (DIFFUSE, sconst (3 / 4))
   \<and> branch_probability (1 / 4) (1 / 2) REFLECT = 1 / 4
   \<and> branch_probability (1 / 4) (1 / 2) REFRACT = 3 / 8
   \<and> branch_probability (1 / 4) (1 / 2) DIFFUSE = 3 / 8"
  using selectType_three_way [of mirror lib0 1 1 up up "sconst (1 / 8)"]
        selectType_three_way [of frosted lib0 1 "3 / 2" up up "sconst (1 / 8)"]
        selectType_three_way [of frosted lib0 1 "3 / 2" up up "sconst (1 / 2)"]
        selectType_three_way [of frosted lib0 1 "3 / 2" up up "sconst (3 / 4)"]
  by (simp add: mirror_def frosted_def glass_def matte_def lib0_def up_def Let_def
        branch_probability_def)

section \<open>The concrete scenes, field by field\<close>

lemma pm0_fields:
  "non_caustic_reject pm0 = 1 / 2" "use_shadow_photons pm0 = True"
  "direct_visualization pm0 = False" "k_nearest_photons pm0 = 50"
  "max_radius pm0 = 1 / 10" "min_bounce_distance pm0 = 1 / 2"
  "max_ray_depth pm0 = 64" "min_ray_depth pm0 = 3"
  "intersect pm0 = (\<lambda>r. if vz (start r) = 1 then Some (hit (matte 0) False) else None)"
  by (simp_all add: pm0_def PhotonMapper_settings_def json0_def getOptional_def Let_def)

lemma diffuse_hit_fields:
  "type (diffuse_hit (down d s)) = DIFFUSE"
  "Interaction.position (diffuse_hit (down d s)) = dvec3 0 0 0"
  "Interaction.normal (diffuse_hit (down d s)) = dvec3 0 0 1"
  by (simp_all add: diffuse_hit_def Interaction_ctor_def Interaction_normals_def selectType_def
        Random_unit_def hit_def patch_def matte_def lib0_def down_def Ray_at_def Let_def)


lemma lib0_fields:
  "EPSILON lib0 = 1 / 10000000" "cs_to lib0 = (\<lambda>n v. v)" "cs_from lib0 = (\<lambda>n v. v)"
  "Fresnel_dielectric lib0 = (\<lambda>a b c. 1 / 4)"
  by (simp_all add: lib0_def)

lemma down_fields:
  "start (down d s) = dvec3 0 0 1" "Ray.direction (down d s) = dvec3 0 0 (- 1)"
  "medium_ior (down d s) = 1" "specular (down d s) = s" "depth (down d s) = d"
  by (simp_all add: down_def)

lemma matte_diffuse_BRDF:
  "BRDF lib0 (diffuse_hit (down d s)) (dvec3 0 0 1)
     = dvec3 (1 / (2 * pi)) (1 / (2 * pi)) (1 / (2 * pi))"
  by (simp add: BRDF_def diffuse_hit_def Interaction_ctor_def Interaction_normals_def
        selectType_def Random_unit_def hit_def patch_def matte_def lib0_def down_def Ray_at_def
        Let_def)

lemma pm0_Ray_of:
  "Ray_of pm0 ia g
     = (\<lparr>start = Interaction.position ia, direction = dvec3 0 0 1, medium_ior = n1 ia,
         specular = (type ia \<noteq> DIFFUSE), depth = Suc (depth (ray ia))\<rparr>, g)"
  by (simp add: pm0_def PhotonMapper_settings_def Let_def)

lemma matte_hit:
  "shd g = 3 / 4 \<Longrightarrow>
     Interaction_ctor lib0 (hit (matte 0) False) (down d s) g = (diffuse_hit (down d s), stl g)"
  by (simp add: diffuse_hit_def Interaction_ctor_def Interaction_normals_def
        selectType_def Random_unit_def hit_def patch_def matte_def lib0_def down_def Ray_at_def
        Let_def)

lemma diffuse_hit_ray:
  "ray (diffuse_hit r) = r" "n1 (diffuse_hit r) = medium_ior r"
  by (simp_all add: diffuse_hit_def Interaction_ctor_def Interaction_normals_def
        selectType_def Random_unit_def hit_def patch_def matte_def lib0_def Let_def
        split: prod.splits)

section \<open>The photon tracer\<close>

text \<open>The scan for shadow photons touches no vector of photons but the shadow one.\<close>

lemma createShadowPhotons_keeps_photons:
  "direct_vecs (createShadowPhotons lib pm r thread d vecs) = direct_vecs vecs
   \<and> indirect_vecs (createShadowPhotons lib pm r thread d vecs) = indirect_vecs vecs
   \<and> caustic_vecs (createShadowPhotons lib pm r thread d vecs) = caustic_vecs vecs"
proof (induction lib pm r thread d vecs rule: createShadowPhotons.induct)
  case (1 lib pm r thread d vecs)
  show ?case
  proof (cases "\<not> use_shadow_photons pm \<or> d > max_ray_depth pm")
    case True
    then show ?thesis by (subst (1 2 3) createShadowPhotons.simps) simp
  next
    case False
    show ?thesis
    proof (cases "intersect pm r")
      case None
      with False show ?thesis by (subst (1 2 3) createShadowPhotons.simps) simp
    next
      case (Some intersection)
      show ?thesis
        using "1.IH"[OF False Some refl refl refl refl refl] False Some
        by (subst (1 2 3) createShadowPhotons.simps) (simp add: Let_def)
    qed
  qed
qed

lemma createShadowPhotons_miss:
  "intersect pm r = None \<Longrightarrow> createShadowPhotons lib pm r thread d vecs = vecs"
  by (subst createShadowPhotons.simps) simp

lemma shadow_scan_keeps_photons:
  "direct_vecs (shadow_scan lib pm r ia thread vecs) = direct_vecs vecs
   \<and> indirect_vecs (shadow_scan lib pm r ia thread vecs) = indirect_vecs vecs
   \<and> caustic_vecs (shadow_scan lib pm r ia thread vecs) = caustic_vecs vecs"
  unfolding shadow_scan_def by (rule createShadowPhotons_keeps_photons)

lemma sdiv_inverse_smul: "sdiv v (1 / c) = smul c v"
  by (cases v) simp

text \<open>
  C1. At a diffuse hit \<^verbatim>\<open>emitPhoton\<close> stores the photon in at most one map. With
  \<open>ncr = non_caustic_reject\<close>, which the constructor sets to \<open>1 / caustic_factor\<close>: if the
  depth of the ray is \<open>0\<close> and the number drawn is below \<open>ncr\<close>, the photon goes to the
  direct vector with flux \<open>flux / ncr\<close>, that is \<open>caustic_factor\<close> times the flux, and the
  shadow scan runs from the hit; otherwise, if the ray is flagged specular, it goes to the
  caustic vector with its flux unchanged; otherwise a number is drawn and, if it is below
  \<open>ncr\<close>, the photon goes to the indirect vector with flux \<open>flux / ncr\<close>; otherwise
  nothing is stored. The first number is drawn only at depth \<open>0\<close>. (A photon is stored
  with flux \<open>flux / ncr\<close> only after a draw below \<open>ncr\<close>, so for draws that are not
  negative the divisor is positive.)
\<close>

theorem emitPhoton_storage_policy:
  "type ia = DIFFUSE \<Longrightarrow>
   (let ncr = non_caustic_reject pm;
        here = Interaction.position ia;
        dir = Ray.direction r;
        first = (depth r = 0 \<and> shd g < ncr);
        g' = (if depth r = 0 then stl g else g);
        (brdf', vecs', g'') = emitPhoton_store lib pm r fl ia brdf thread vecs g
    in (first \<longrightarrow>
          vecs' = shadow_scan lib pm r ia thread
                    (vecs\<lparr>direct_vecs :=
                       emplace_back (direct_vecs vecs) thread (Photon_of (sdiv fl ncr) here dir)\<rparr>)
          \<and> direct_vecs vecs'
               = emplace_back (direct_vecs vecs) thread (Photon_of (sdiv fl ncr) here dir)
          \<and> g'' = g')
       \<and> (\<not> first \<and> specular r \<longrightarrow>
            vecs' = vecs\<lparr>caustic_vecs :=
                      emplace_back (caustic_vecs vecs) thread (Photon_of fl here dir)\<rparr>
            \<and> g'' = g')
       \<and> (\<not> first \<and> \<not> specular r \<and> shd g' < ncr \<longrightarrow>
            vecs' = vecs\<lparr>indirect_vecs :=
                      emplace_back (indirect_vecs vecs) thread (Photon_of (sdiv fl ncr) here dir)\<rparr>
            \<and> g'' = stl g')
       \<and> (\<not> first \<and> \<not> specular r \<and> \<not> shd g' < ncr \<longrightarrow> vecs' = vecs \<and> g'' = stl g')
       \<and> ((indirect_vecs vecs' = indirect_vecs vecs \<and> caustic_vecs vecs' = caustic_vecs vecs)
            \<or> (direct_vecs vecs' = direct_vecs vecs \<and> indirect_vecs vecs' = indirect_vecs vecs)
            \<or> (direct_vecs vecs' = direct_vecs vecs \<and> caustic_vecs vecs' = caustic_vecs vecs))
       \<and> (ncr = 1 / caustic_factor \<longrightarrow> sdiv fl ncr = smul caustic_factor fl)
       \<and> non_caustic_reject (PhotonMapper_settings j pm) = 1 / json_caustic_factor j)"
  by (auto simp: emitPhoton_store_def and_trial_def Random_trial_def Let_def
        shadow_scan_keeps_photons sdiv_inverse_smul PhotonMapper_settings_def
      split: prod.splits if_splits)

text \<open>
  On the matte floor with \<open>caustic_factor = 2\<close>: a first hit with draw \<open>1/4\<close> is stored
  as a direct photon of twice the flux; a specular ray at depth one leaves a caustic photon
  of the same flux; a diffuse ray at depth one with draw \<open>1/4\<close> leaves an indirect photon
  of twice the flux, and so does a first hit whose first draw \<open>3/4\<close> fails and whose second
  draw \<open>1/4\<close> succeeds; with draw \<open>3/4\<close> at depth one nothing is stored.
\<close>

theorem emitPhoton_storage_policy_witness:
  "type (diffuse_hit (down 0 False)) = DIFFUSE
   \<and> snd (emitPhoton_store lib0 pm0 (down 0 False) white (diffuse_hit (down 0 False)) white 0
            no_vecs (sconst (1 / 4)))
       = (no_vecs\<lparr>direct_vecs := [[Photon_of (dvec3 2 2 2) (dvec3 0 0 0) (dvec3 0 0 (- 1))]]\<rparr>,
          sconst (1 / 4))
   \<and> snd (emitPhoton_store lib0 pm0 (down 1 True) white (diffuse_hit (down 1 True)) white 0
            no_vecs (sconst (1 / 4)))
       = (no_vecs\<lparr>caustic_vecs := [[Photon_of white (dvec3 0 0 0) (dvec3 0 0 (- 1))]]\<rparr>,
          sconst (1 / 4))
   \<and> snd (emitPhoton_store lib0 pm0 (down 1 False) white (diffuse_hit (down 1 False)) white 0
            no_vecs (sconst (1 / 4)))
       = (no_vecs\<lparr>indirect_vecs := [[Photon_of (dvec3 2 2 2) (dvec3 0 0 0) (dvec3 0 0 (- 1))]]\<rparr>,
          sconst (1 / 4))
   \<and> snd (emitPhoton_store lib0 pm0 (down 0 False) white (diffuse_hit (down 0 False)) white 0
            no_vecs (3 / 4 ## sconst (1 / 4)))
       = (no_vecs\<lparr>indirect_vecs := [[Photon_of (dvec3 2 2 2) (dvec3 0 0 0) (dvec3 0 0 (- 1))]]\<rparr>,
          sconst (1 / 4))
   \<and> snd (emitPhoton_store lib0 pm0 (down 1 False) white (diffuse_hit (down 1 False)) white 0
            no_vecs (sconst (3 / 4)))
       = (no_vecs, sconst (3 / 4))"
  using emitPhoton_storage_policy
          [of "diffuse_hit (down 0 False)" pm0 "down 0 False" "sconst (1 / 4)" lib0 white white 0
              no_vecs 2 json0]
        emitPhoton_storage_policy
          [of "diffuse_hit (down 1 True)" pm0 "down 1 True" "sconst (1 / 4)" lib0 white white 0
              no_vecs 2 json0]
        emitPhoton_storage_policy
          [of "diffuse_hit (down 1 False)" pm0 "down 1 False" "sconst (1 / 4)" lib0 white white 0
              no_vecs 2 json0]
        emitPhoton_storage_policy
          [of "diffuse_hit (down 0 False)" pm0 "down 0 False" "3 / 4 ## sconst (1 / 4)" lib0 white
              white 0 no_vecs 2 json0]
        emitPhoton_storage_policy
          [of "diffuse_hit (down 1 False)" pm0 "down 1 False" "sconst (3 / 4)" lib0 white white 0
              no_vecs 2 json0]
  by (simp add: pm0_fields diffuse_hit_fields down_fields Let_def white_def no_vecs_def
        emplace_back_def shadow_scan_def createShadowPhotons_miss Ray_between_def lib0_fields
        split: prod.splits)

text \<open>
  The storage policy of the earlier variant does the same whenever the ray is not at
  depth \<open>0\<close> or the first trial succeeds. It differs after a failed first trial at depth
  \<open>0\<close>: there the later variant goes on to the tests for a caustic and an indirect photon,
  and the earlier one stores nothing.
\<close>

lemma emitPhoton_store_earlier_agrees:
  "type ia = DIFFUSE \<Longrightarrow> depth r \<noteq> 0 \<or> shd g < non_caustic_reject pm \<Longrightarrow>
     snd (emitPhoton_store lib pm r fl ia brdf thread vecs g)
       = emitPhoton_store_earlier (shadow_scan lib pm r ia thread) pm r (depth r) fl
           (Interaction.position ia) thread vecs g"
  by (auto simp: emitPhoton_store_def emitPhoton_store_earlier_def and_trial_def Random_trial_def
      Let_def split: prod.splits)

lemma emitPhoton_store_earlier_differs:
  "snd (emitPhoton_store lib0 pm0 (down 0 False) white (diffuse_hit (down 0 False)) white 0
          no_vecs (3 / 4 ## sconst (1 / 4)))
     = (no_vecs\<lparr>indirect_vecs := [[Photon_of (dvec3 2 2 2) (dvec3 0 0 0) (dvec3 0 0 (- 1))]]\<rparr>,
        sconst (1 / 4))
   \<and> emitPhoton_store_earlier (shadow_scan lib0 pm0 (down 0 False) (diffuse_hit (down 0 False)) 0)
        pm0 (down 0 False) 0 white (dvec3 0 0 0) 0 no_vecs (3 / 4 ## sconst (1 / 4))
     = (no_vecs, sconst (1 / 4))"
  by (simp add: emitPhoton_store_def emitPhoton_store_earlier_def and_trial_def Random_trial_def
      pm0_fields diffuse_hit_fields down_fields Let_def white_def no_vecs_def emplace_back_def)

text \<open>
  C4. In a call of \<^verbatim>\<open>emitPhoton\<close> that is below the depth limit and hits a surface, with
  \<open>new_flux\<close> the flux times the BRDF, the survival probability is
  \<open>s = min (if depth > min_ray_depth then 0.9 else 1) (compMax new_flux / compMax flux)\<close>;
  a number is drawn, and if it is below \<open>s\<close> the call is the recursive call on the new ray
  with flux \<open>new_flux / s\<close>, and otherwise it returns what it has stored. (The flux is
  divided by \<open>s\<close> only after a draw below \<open>s\<close>; the quotient that defines \<open>s\<close> has a zero
  divisor when the greatest channel of the incoming flux is zero.)
\<close>

theorem emitPhoton_russian_roulette:
  "depth r \<noteq> max_ray_depth pm \<Longrightarrow> intersect pm r = Some intersection \<Longrightarrow>
   (let (interaction, g1) = Interaction_ctor lib intersection r g;
        (new_ray, g2) = Ray_of pm interaction g1;
        (brdf, vecs', g3) =
           emitPhoton_store lib pm r fl interaction (BRDF lib interaction (Ray.direction new_ray))
             thread vecs g2;
        new_flux = fl * brdf;
        s = min (if depth r > min_ray_depth pm then 9 / 10 else 1)
                (compMax new_flux / compMax fl)
    in emitPhoton_survive pm r fl new_flux = s
       \<and> emitPhoton (Suc fuel) lib pm r fl thread vecs g
           = (if shd g3 < s
              then emitPhoton fuel lib pm new_ray (sdiv new_flux s) thread vecs' (stl g3)
              else Some (vecs', stl g3)))"
  by (simp add: emitPhoton_survive_def Random_trial_def Let_def split: prod.splits)

text \<open>
  A photon of unit flux falls on the matte floor of reflectance one half: \<open>s = 1/2\<close>.
  With draws \<open>3/4, 1/4, 1/4, \<dots>\<close> it is stored, survives and leaves the scene in the
  second call (one call of fuel is not enough); with draws \<open>3/4, 3/4, \<dots>\<close> it is not
  stored and does not survive.
\<close>

theorem emitPhoton_russian_roulette_witness:
  "depth (down 0 False) \<noteq> max_ray_depth pm0
   \<and> intersect pm0 (down 0 False) = Some (hit (matte 0) False)
   \<and> emitPhoton_survive pm0 (down 0 False) white (dvec3 (1 / 2) (1 / 2) (1 / 2)) = 1 / 2
   \<and> emitPhoton 2 lib0 pm0 (down 0 False) white 0 no_vecs (3 / 4 ## sconst (1 / 4))
       = Some (no_vecs\<lparr>direct_vecs :=
                 [[Photon_of (dvec3 2 2 2) (dvec3 0 0 0) (dvec3 0 0 (- 1))]]\<rparr>,
               sconst (1 / 4))
   \<and> emitPhoton 1 lib0 pm0 (down 0 False) white 0 no_vecs (3 / 4 ## sconst (1 / 4)) = None
   \<and> emitPhoton 1 lib0 pm0 (down 0 False) white 0 no_vecs (sconst (3 / 4))
       = Some (no_vecs, sconst (3 / 4))"
proof -
  have d: "depth (down 0 False) \<noteq> max_ray_depth pm0"
    by (simp add: down_fields pm0_fields)
  have i: "intersect pm0 (down 0 False) = Some (hit (matte 0) False)"
    by (simp add: down_fields pm0_fields)
  have miss: "emitPhoton 1 lib pm0
      \<lparr>start = dvec3 0 0 0, direction = dvec3 0 0 1, medium_ior = 1, specular = False,
        depth = Suc 0\<rparr> fl' th v g' = Some (v, g')" for lib fl' th v g'
    by (simp add: pm0_fields)
  show ?thesis
    using emitPhoton_russian_roulette
            [OF d i, of lib0 "3 / 4 ## sconst (1 / 4)" white 0 no_vecs "Suc 0"]
          emitPhoton_russian_roulette
            [OF d i, of lib0 "3 / 4 ## sconst (1 / 4)" white 0 no_vecs 0]
          emitPhoton_russian_roulette
            [OF d i, of lib0 "sconst (3 / 4)" white 0 no_vecs 0]
    by (simp add: d i matte_hit pm0_Ray_of matte_diffuse_BRDF diffuse_hit_fields
          diffuse_hit_ray down_fields pm0_fields emitPhoton_store_def and_trial_def
          Random_trial_def emitPhoton_survive_def Let_def white_def no_vecs_def emplace_back_def
          shadow_scan_def createShadowPhotons_miss Ray_between_def lib0_fields miss
          numeral_2_eq_2)
qed

text \<open>
  When the ray built from an interaction is one level deeper than the ray that hit, as the
  specification has it, the tracer returns within the fuel of the levels that are left.
\<close>

lemma Interaction_ctor_ray: "ray (fst (Interaction_ctor lib isect r g)) = r"
  by (simp add: Interaction_ctor_def Let_def split: prod.splits)

lemma emitPhoton_returns:
  assumes deeper: "\<And>ia g. depth (fst (Ray_of pm ia g)) = Suc (depth (ray ia))"
  shows "depth r \<le> max_ray_depth pm \<Longrightarrow> max_ray_depth pm - depth r < fuel \<Longrightarrow>
           \<exists>res. emitPhoton fuel lib pm r fl thread vecs g = Some res"
proof (induction fuel arbitrary: r fl vecs g)
  case 0
  then show ?case by simp
next
  case (Suc fuel)
  show ?case
  proof (cases "depth r = max_ray_depth pm")
    case True
    then show ?thesis by simp
  next
    case deep: False
    show ?thesis
    proof (cases "intersect pm r")
      case None
      with deep show ?thesis by simp
    next
      case (Some intersection)
      obtain ia g1 where ct: "Interaction_ctor lib intersection r g = (ia, g1)"
        by (metis prod.exhaust)
      obtain nr g2 where ro: "Ray_of pm ia g1 = (nr, g2)"
        by (metis prod.exhaust)
      have "ray ia = r" using Interaction_ctor_ray[of lib intersection r g] ct by simp
      then have dn: "depth nr = Suc (depth r)" using deeper[of ia g1] ro by simp
      have le: "depth nr \<le> max_ray_depth pm" using dn deep Suc.prems(1) by simp
      have lt: "max_ray_depth pm - depth nr < fuel" using dn deep Suc.prems by simp
      note IH = Suc.IH[OF le lt]
      show ?thesis
        using deep Some ct ro IH
        by (simp add: Let_def split: prod.splits)
    qed
  qed
qed

lemma emitPhoton_store_brdf:
  "fst (emitPhoton_store lib pm r fl ia brdf thread vecs g)
     = (if type ia = DIFFUSE then smul pi brdf else brdf)"
  by (simp add: emitPhoton_store_def Let_def split: prod.splits)

lemma nonneg_smul: "0 \<le> s \<Longrightarrow> nonneg v \<Longrightarrow> nonneg (smul s v)"
  by (cases v) (simp add: nonneg_def)

text \<open>
  A flux with a positive greatest channel, times a BRDF without negative channel, has a
  greatest channel that is not negative.
\<close>

lemma compMax_times_nonneg:
  assumes "0 < compMax fl" and "nonneg b"
  shows "0 \<le> compMax (fl * b)"
proof -
  obtain x y z where fl: "fl = dvec3 x y z" by (cases fl)
  obtain u v w where b: "b = dvec3 u v w" by (cases b)
  from assms(2) have nn: "0 \<le> u" "0 \<le> v" "0 \<le> w" by (simp_all add: b nonneg_def)
  from assms(1) have "0 < x \<or> 0 < y \<or> 0 < z" by (auto simp: fl max_def split: if_splits)
  then have "0 \<le> x * u \<or> 0 \<le> y * v \<or> 0 \<le> z * w" using nn by auto
  then show ?thesis by (auto simp: fl b max_def)
qed

text \<open>
  C10. When the greatest channel of the incoming flux is positive and the BRDF that
  \<^verbatim>\<open>interaction.BRDF\<close> returned has no negative channel, the survival value that
  \<^verbatim>\<open>emitPhoton\<close> computes, from the flux times the BRDF as the storage policy leaves it
  (times \<open>pi\<close> at a diffuse hit), lies between \<open>0\<close> and \<open>1\<close>.
\<close>

theorem emitPhoton_survive_is_probability:
  "0 < compMax fl \<Longrightarrow> nonneg brdf \<Longrightarrow>
     (let brdf' = fst (emitPhoton_store lib pm r fl ia brdf thread vecs g);
          survive = emitPhoton_survive pm r fl (fl * brdf')
      in 0 \<le> survive \<and> survive \<le> 1)"
proof -
  assume pos: "0 < compMax fl" and nn: "nonneg brdf"
  define b where "b = fst (emitPhoton_store lib pm r fl ia brdf thread vecs g)"
  have "nonneg b"
    unfolding b_def emitPhoton_store_brdf using nn by (simp add: nonneg_smul)
  then have "0 \<le> compMax (fl * b)" using pos by (rule compMax_times_nonneg[rotated])
  then have q: "0 \<le> compMax (fl * b) / compMax fl" using pos by simp
  have cap: "0 \<le> min c x \<and> min c x \<le> 1" if "0 \<le> x" "0 \<le> c" "c \<le> 1" for c x :: real
    using that by (simp add: min_le_iff_disj)
  have "0 \<le> emitPhoton_survive pm r fl (fl * b) \<and> emitPhoton_survive pm r fl (fl * b) \<le> 1"
    unfolding emitPhoton_survive_def by (rule cap[OF q]) simp_all
  then show ?thesis by (simp add: Let_def b_def)
qed

theorem emitPhoton_survive_is_probability_witness:
  "0 < compMax white \<and> nonneg (dvec3 (1 / (2 * pi)) (1 / (2 * pi)) (1 / (2 * pi)))
   \<and> emitPhoton_survive pm0 (down 0 False) white
        (white * fst (emitPhoton_store lib0 pm0 (down 0 False) white (diffuse_hit (down 0 False))
                        (dvec3 (1 / (2 * pi)) (1 / (2 * pi)) (1 / (2 * pi))) 0 no_vecs
                        (sconst (1 / 4)))) = 1 / 2
   \<and> emitPhoton_survive pm0 (down 4 False) white
        (white * fst (emitPhoton_store lib0 pm0 (down 4 False) white (diffuse_hit (down 4 False))
                        (dvec3 (3 / pi) 0 0) 0 no_vecs (sconst (1 / 4)))) = 9 / 10"
  using emitPhoton_survive_is_probability
          [of white "dvec3 (1 / (2 * pi)) (1 / (2 * pi)) (1 / (2 * pi))" lib0 pm0 "down 0 False"
              "diffuse_hit (down 0 False)" 0 no_vecs "sconst (1 / 4)"]
  by (simp add: emitPhoton_store_brdf diffuse_hit_fields emitPhoton_survive_def down_fields
        pm0_fields white_def nonneg_def)

section \<open>Rounding to double precision\<close>

text \<open>
  Within a binade the doubles are the multiples of one power of two, and the rounding of
  a value is the rounding of the scaled value to an integer. The last two of
  these lemmas evaluate a rounding: they ask for the binade, and leave the rounding of a
  fraction to an integer.
\<close>

lemma round_half_even_of_int: "round_half_even (of_int i) = i"
  by (simp add: round_half_even_def)

lemma double_round_binade:
  assumes "2 powr of_int (z + 52) \<le> \<bar>x\<bar>" and "\<bar>x\<bar> < 2 powr of_int (z + 53)"
  shows "double_round x = of_int (round_half_even (x / 2 powr of_int z)) * 2 powr of_int z"
proof -
  have pos: "0 < \<bar>x\<bar>"
    using assms(1) powr_gt_zero[of 2 "of_int (z + 52)"] by linarith
  have "\<lfloor>log 2 \<bar>x\<bar>\<rfloor> = z + 52"
    using assms pos by (subst floor_log_eq_powr_iff) (simp_all add: add.commute)
  then show ?thesis using pos by (simp add: double_round_def Let_def)
qed

lemma double_round_scaled_up:
  fixes k :: nat
  assumes "2 ^ 52 * 2 ^ k \<le> \<bar>x\<bar>" and "\<bar>x\<bar> < 2 ^ 53 * 2 ^ k"
  shows "double_round x = of_int (round_half_even (x / 2 ^ k)) * 2 ^ k"
proof -
  have q: "2 powr of_int (int k) = (2::real) ^ k" by (simp add: powr_realpow)
  have a: "2 powr of_int (int k + 52) = (2::real) ^ 52 * 2 ^ k"
    by (simp add: powr_add powr_realpow)
  have b: "2 powr of_int (int k + 53) = (2::real) ^ 53 * 2 ^ k"
    by (simp add: powr_add powr_realpow)
  show ?thesis
    using double_round_binade[of "int k" x] assms unfolding a b q by simp
qed

lemma double_round_scaled_down:
  fixes k :: nat
  assumes "2 ^ 52 / 2 ^ k \<le> \<bar>x\<bar>" and "\<bar>x\<bar> < 2 ^ 53 / 2 ^ k"
  shows "double_round x = of_int (round_half_even (x * 2 ^ k)) / 2 ^ k"
proof -
  have q: "2 powr of_int (- int k) = 1 / (2::real) ^ k"
    by (simp add: powr_minus powr_realpow divide_simps)
  have a: "2 powr of_int (- int k + 52) = (2::real) ^ 52 / 2 ^ k"
    by (simp add: powr_diff powr_realpow)
  have b: "2 powr of_int (- int k + 53) = (2::real) ^ 53 / 2 ^ k"
    by (simp add: powr_diff powr_realpow)
  show ?thesis
    using double_round_binade[of "- int k" x] assms unfolding a b q by simp
qed

text \<open>
  The rounded value is within half a unit in the last place of the exact one, a relative
  error of at most \<open>2\<^sup>-\<^sup>5\<^sup>3\<close>.
\<close>

lemma round_half_even_near: "\<bar>of_int (round_half_even m) - m\<bar> \<le> 1 / 2"
  unfolding round_half_even_def Let_def by (auto simp: abs_if; linarith)

lemma round_half_even_mono: "a \<le> b \<Longrightarrow> round_half_even a \<le> round_half_even b"
proof (rule ccontr)
  assume ab: "a \<le> b" and "\<not> round_half_even a \<le> round_half_even b"
  then have gt: "round_half_even b + 1 \<le> round_half_even a" by simp
  have na: "\<bar>of_int (round_half_even a) - a\<bar> \<le> 1 / 2" by (rule round_half_even_near)
  have nb: "\<bar>of_int (round_half_even b) - b\<bar> \<le> 1 / 2" by (rule round_half_even_near)
  from gt have "real_of_int (round_half_even b) + 1 \<le> of_int (round_half_even a)"
    by (metis of_int_1 of_int_add of_int_le_iff)
  with na nb ab have "a = b" by linarith
  with gt show False by simp
qed

lemma binade_bounds:
  assumes "x \<noteq> 0"
  defines "e \<equiv> \<lfloor>log 2 \<bar>x\<bar>\<rfloor>"
  shows "2 powr of_int e \<le> \<bar>x\<bar>" and "\<bar>x\<bar> < 2 powr of_int (e + 1)"
proof -
  have pos: "0 < \<bar>x\<bar>" using assms(1) by simp
  have "\<lfloor>log 2 \<bar>x\<bar>\<rfloor> = e" by (simp add: e_def)
  then have "2 powr of_int e \<le> \<bar>x\<bar> \<and> \<bar>x\<bar> < 2 powr (of_int e + 1)"
    using floor_log_eq_powr_iff[of "\<bar>x\<bar>" 2 e] pos by simp
  then show "2 powr of_int e \<le> \<bar>x\<bar>" and "\<bar>x\<bar> < 2 powr of_int (e + 1)" by simp_all
qed

lemma double_round_error: "\<bar>double_round x - x\<bar> \<le> \<bar>x\<bar> / 2 ^ 53"
proof (cases "x = 0")
  case True
  then show ?thesis by (simp add: double_round_def)
next
  case False
  define e where "e = \<lfloor>log 2 \<bar>x\<bar>\<rfloor>"
  define q :: real where "q = 2 powr of_int (e - 52)"
  have q0: "0 < q" by (simp add: q_def)
  have lo: "2 powr of_int e \<le> \<bar>x\<bar>" using binade_bounds(1)[OF False] by (simp add: e_def)
  have qe: "q * 2 ^ 52 = 2 powr of_int e"
    by (simp add: q_def powr_diff)
  have fl: "double_round x = of_int (round_half_even (x / q)) * q"
    using False by (simp add: double_round_def Let_def q_def e_def)
  have "double_round x - x = (of_int (round_half_even (x / q)) - x / q) * q"
    using q0 by (simp add: fl algebra_simps)
  then have "\<bar>double_round x - x\<bar> = \<bar>of_int (round_half_even (x / q)) - x / q\<bar> * q"
    using q0 by (simp add: abs_mult)
  also have "\<dots> \<le> 1 / 2 * q"
    using round_half_even_near[of "x / q"] q0 by (simp add: mult_right_mono)
  also have "\<dots> = 2 powr of_int e / 2 ^ 53" using qe[symmetric] by simp
  also have "\<dots> \<le> \<bar>x\<bar> / 2 ^ 53" using lo by (simp add: divide_right_mono)
  finally show ?thesis .
qed

text \<open>
  A value with a significand of 53 digits is its own rounding; the rounding of a positive
  value has such a significand, or is the next power of two; so rounding twice is rounding
  once, and the rounding is monotone.
\<close>

lemma of_int_le_pow2: "(k::int) \<le> 2 ^ n \<Longrightarrow> real_of_int k \<le> 2 ^ n"
  by (metis of_int_le_iff of_int_numeral of_int_power)

lemma pow2_le_of_int: "2 ^ n \<le> (k::int) \<Longrightarrow> 2 ^ n \<le> real_of_int k"
  by (metis of_int_le_iff of_int_numeral of_int_power)

lemma of_int_less_pow2: "(k::int) < 2 ^ n \<Longrightarrow> real_of_int k < 2 ^ n"
  by (metis of_int_less_iff of_int_numeral of_int_power)

lemma double_round_exact:
  assumes "x = of_int k * 2 powr of_int z" and "2 ^ 52 \<le> \<bar>k\<bar>" and "\<bar>k\<bar> < 2 ^ 53"
  shows "double_round x = x"
proof -
  have p: "(0::real) < 2 powr of_int z" by simp
  have ax: "\<bar>x\<bar> = of_int \<bar>k\<bar> * 2 powr of_int z"
    by (simp add: assms(1) abs_mult)
  have lo: "2 powr of_int (z + 52) \<le> \<bar>x\<bar>"
  proof -
    have "(2::real) ^ 52 \<le> of_int \<bar>k\<bar>" using assms(2) by (rule pow2_le_of_int)
    then have "(2::real) ^ 52 * 2 powr of_int z \<le> of_int \<bar>k\<bar> * 2 powr of_int z"
      by (rule mult_right_mono) simp
    then show ?thesis by (simp add: ax powr_add mult.commute)
  qed
  have hi: "\<bar>x\<bar> < 2 powr of_int (z + 53)"
  proof -
    have "of_int \<bar>k\<bar> < (2::real) ^ 53" using assms(3) by (rule of_int_less_pow2)
    then have "of_int \<bar>k\<bar> * 2 powr of_int z < (2::real) ^ 53 * 2 powr of_int z"
      by (rule mult_strict_right_mono) simp
    then show ?thesis by (simp add: ax powr_add mult.commute)
  qed
  have "x / 2 powr of_int z = of_int k" by (simp add: assms(1))
  then show ?thesis
    using double_round_binade[OF lo hi] by (simp add: round_half_even_of_int assms(1))
qed

lemma double_round_range:
  assumes "0 < x"
  defines "e \<equiv> \<lfloor>log 2 x\<rfloor>"
  shows "\<exists>k. double_round x = of_int k * 2 powr of_int (e - 52) \<and> 2 ^ 52 \<le> k \<and> k \<le> 2 ^ 53"
proof -
  define q :: real where "q = 2 powr of_int (e - 52)"
  have q0: "0 < q" by (simp add: q_def)
  have ne: "x \<noteq> 0" and ab: "\<bar>x\<bar> = x" using assms(1) by simp_all
  have lo: "2 powr of_int e \<le> x" and hi: "x < 2 powr of_int (e + 1)"
    using binade_bounds[OF ne] by (simp_all add: e_def ab)
  have qlo: "2 powr of_int e = 2 ^ 52 * q" by (simp add: q_def powr_diff)
  have qhi: "2 powr of_int (e + 1) = 2 ^ 53 * q" by (simp add: q_def powr_diff powr_add)
  have mlo: "2 ^ 52 \<le> x / q" using lo q0 by (simp add: qlo pos_le_divide_eq)
  have "x \<le> 2 ^ 53 * q" using hi unfolding qhi by simp
  then have mhi: "x / q \<le> 2 ^ 53" using q0 by (simp add: pos_divide_le_eq)
  have "round_half_even (of_int (2 ^ 52)) \<le> round_half_even (x / q)"
    using mlo by (intro round_half_even_mono) simp
  then have klo: "2 ^ 52 \<le> round_half_even (x / q)"
    by (simp only: round_half_even_of_int)
  have "round_half_even (x / q) \<le> round_half_even (of_int (2 ^ 53))"
    using mhi by (intro round_half_even_mono) simp
  then have khi: "round_half_even (x / q) \<le> 2 ^ 53"
    by (simp only: round_half_even_of_int)
  have "double_round x = of_int (round_half_even (x / q)) * q"
    using ne by (simp add: double_round_def Let_def q_def e_def ab)
  then show ?thesis using klo khi unfolding q_def by blast
qed

lemma double_round_idem_pos:
  assumes "0 < x"
  shows "double_round (double_round x) = double_round x"
proof -
  define e where "e = \<lfloor>log 2 x\<rfloor>"
  obtain k where fl: "double_round x = of_int k * 2 powr of_int (e - 52)"
    and klo: "2 ^ 52 \<le> k" and khi: "k \<le> 2 ^ 53"
    using double_round_range[OF assms] unfolding e_def by blast
  show ?thesis
  proof (cases "k = 2 ^ 53")
    case False
    with klo khi have "2 ^ 52 \<le> \<bar>k\<bar>" "\<bar>k\<bar> < 2 ^ 53" by simp_all
    then show ?thesis using double_round_exact[OF fl] by simp
  next
    case True
    have "double_round x = of_int (2 ^ 52) * 2 powr of_int (e - 51)"
      by (simp add: fl True powr_diff)
    then show ?thesis using double_round_exact[of "double_round x" "2 ^ 52" "e - 51"] by simp
  qed
qed

lemma double_round_nonneg: "0 \<le> x \<Longrightarrow> 0 \<le> double_round x"
proof (cases "x = 0")
  case True
  then show ?thesis by (simp add: double_round_def)
next
  case False
  assume "0 \<le> x"
  with False have "0 < x" by simp
  from double_round_range[OF this] obtain k where
    "double_round x = of_int k * 2 powr of_int (\<lfloor>log 2 x\<rfloor> - 52)" "2 ^ 52 \<le> k" by blast
  then show ?thesis by simp
qed

lemma double_round_mono_pos:
  assumes "0 < x" and "x \<le> y"
  shows "double_round x \<le> double_round y"
proof -
  have y0: "0 < y" using assms by simp
  define ex where "ex = \<lfloor>log 2 x\<rfloor>"
  define ey where "ey = \<lfloor>log 2 y\<rfloor>"
  have le: "ex \<le> ey" unfolding ex_def ey_def using assms by (intro floor_mono) simp
  obtain kx where fx: "double_round x = of_int kx * 2 powr of_int (ex - 52)"
    and kxhi: "kx \<le> 2 ^ 53"
    using double_round_range[OF assms(1)] unfolding ex_def by blast
  obtain ky where fy: "double_round y = of_int ky * 2 powr of_int (ey - 52)"
    and kylo: "2 ^ 52 \<le> ky"
    using double_round_range[OF y0] unfolding ey_def by blast
  show ?thesis
  proof (cases "ex = ey")
    case True
    have nx: "x \<noteq> 0" and ny: "y \<noteq> 0" using assms y0 by simp_all
    have "double_round x = of_int (round_half_even (x / 2 powr of_int (ex - 52))) * 2 powr of_int (ex - 52)"
      using nx assms(1) by (simp add: double_round_def Let_def ex_def)
    moreover have "double_round y = of_int (round_half_even (y / 2 powr of_int (ex - 52))) * 2 powr of_int (ex - 52)"
      using ny y0 True by (simp add: double_round_def Let_def ey_def)
    moreover have "round_half_even (x / 2 powr of_int (ex - 52)) \<le> round_half_even (y / 2 powr of_int (ex - 52))"
      using assms(2) by (intro round_half_even_mono) (simp add: divide_right_mono)
    ultimately show ?thesis by (simp add: mult_right_mono)
  next
    case False
    with le have lt: "ex + 1 \<le> ey" by simp
    have "double_round x \<le> 2 ^ 53 * 2 powr of_int (ex - 52)"
      unfolding fx using of_int_le_pow2[OF kxhi] by (intro mult_right_mono) simp_all
    also have "\<dots> = 2 powr of_int (ex + 1)" by (simp add: powr_diff powr_add)
    also have "\<dots> \<le> 2 powr of_int ey" using lt by simp
    also have "\<dots> = 2 ^ 52 * 2 powr of_int (ey - 52)" by (simp add: powr_diff)
    also have "\<dots> \<le> double_round y"
      unfolding fy using pow2_le_of_int[OF kylo] by (intro mult_right_mono) simp_all
    finally show ?thesis .
  qed
qed

text \<open>
  Every count up to \<open>2\<^sup>5\<^sup>3\<close> is a double.
\<close>

lemma double_round_of_nat:
  assumes "n \<le> 2 ^ 53"
  shows "double_round (real n) = real n"
proof (cases "n = 0")
  case True
  then show ?thesis by (simp add: double_round_def)
next
  case False
  show ?thesis
  proof (cases "n = 2 ^ 53")
    case True
    have "real n = of_int (2 ^ 52) * 2 powr of_int 1" by (simp add: True)
    then show ?thesis using double_round_exact[of "real n" "2 ^ 52" 1] by simp
  next
    case ne: False
    have pos: "real n \<noteq> 0" using False by simp
    define e where "e = \<lfloor>log 2 \<bar>real n\<bar>\<rfloor>"
    have lo: "2 powr of_int e \<le> real n" and hi: "real n < 2 powr of_int (e + 1)"
      using binade_bounds[OF pos] by (simp_all add: e_def)
    have n53: "real n < 2 ^ 53" using assms ne
      by (metis le_neq_implies_less of_nat_less_iff of_nat_numeral of_nat_power)
    have "(2::real) powr of_int e < 2 powr of_int 53"
    proof -
      have "(2::real) powr of_int 53 = 2 ^ 53" by (simp add: powr_realpow)
      then show ?thesis using lo n53 by linarith
    qed
    then have "real_of_int e < real_of_int 53" by (rule powr_less_cancel) simp
    then have "e < 53" by (simp only: of_int_less_iff)
    then have e52: "e \<le> 52" by simp
    define d where "d = nat (52 - e)"
    have ed: "e = 52 - int d" using e52 by (simp add: d_def)
    have p1: "2 powr of_int e = (2::real) ^ 52 / 2 ^ d"
      by (simp add: ed powr_diff powr_realpow)
    have p2: "2 powr of_int (e + 1) = (2::real) ^ 53 / 2 ^ d"
      by (simp add: ed powr_diff powr_realpow)
    have klo: "(2::real) ^ 52 \<le> real n * 2 ^ d"
      using lo unfolding p1 by (simp add: pos_divide_le_eq)
    have khi: "real n * 2 ^ d < (2::real) ^ 53"
      using hi unfolding p2 by (simp add: pos_less_divide_eq)
    define k where "k = int n * 2 ^ d"
    have kr: "real_of_int k = real n * 2 ^ d" by (simp add: k_def)
    have "real_of_int (2 ^ 52) \<le> real_of_int k" using klo by (simp add: kr)
    then have "2 ^ 52 \<le> k" by (simp only: of_int_le_iff)
    then have a: "2 ^ 52 \<le> \<bar>k\<bar>" by simp
    have "real_of_int k < real_of_int (2 ^ 53)" using khi by (simp add: kr)
    then have "k < 2 ^ 53" by (simp only: of_int_less_iff)
    moreover have "0 \<le> k" by (simp add: k_def)
    ultimately have b: "\<bar>k\<bar> < 2 ^ 53" by simp
    have "real n = of_int k * 2 powr of_int (- int d)"
      by (simp add: kr powr_minus powr_realpow field_simps)
    then show ?thesis by (rule double_round_exact[OF _ a b])
  qed
qed

lemma double_round_zero: "double_round 0 = 0"
  by (simp add: double_round_def)

lemma double_round_mono_nonneg:
  assumes "0 \<le> x" and "x \<le> y"
  shows "double_round x \<le> double_round y"
proof (cases "x = 0")
  case True
  then show ?thesis using double_round_nonneg[of y] assms by (simp add: double_round_zero)
next
  case False
  with assms have "0 < x" by simp
  then show ?thesis using assms(2) by (rule double_round_mono_pos)
qed

lemma double_round_idem_nonneg: "0 \<le> x \<Longrightarrow> double_round (double_round x) = double_round x"
  by (cases "x = 0") (simp_all add: double_round_zero double_round_idem_pos)

lemma double_round_one: "double_round 1 = 1"
  using double_round_of_nat[of 1] by simp

lemma double_round_numeral:
  "numeral w \<le> (2::nat) ^ 53 \<Longrightarrow> double_round (numeral w) = numeral w"
  using double_round_of_nat[of "numeral w"] by simp

lemmas double_ops = double_add_def double_mul_def double_div_def double_of_size_t_def
  double_round_zero double_round_one double_round_numeral

text \<open>
  A sum of doubles without sign, added from left to right in double precision, is at
  least each of its terms.
\<close>

lemma double_add_nonneg: "0 \<le> a \<Longrightarrow> 0 \<le> b \<Longrightarrow> 0 \<le> double_add a b"
  by (simp add: double_add_def double_round_nonneg)

lemma double_add_idem: "0 \<le> a \<Longrightarrow> 0 \<le> b \<Longrightarrow> double_round (double_add a b) = double_add a b"
  by (simp add: double_add_def double_round_idem_nonneg)

lemma double_add_ge_left:
  "0 \<le> a \<Longrightarrow> 0 \<le> b \<Longrightarrow> double_round a = a \<Longrightarrow> a \<le> double_add a b"
  using double_round_mono_nonneg[of a "a + b"] by (simp add: double_add_def)

lemma double_add_ge_right:
  "0 \<le> a \<Longrightarrow> 0 \<le> b \<Longrightarrow> double_round b = b \<Longrightarrow> b \<le> double_add a b"
  using double_round_mono_nonneg[of b "a + b"] by (simp add: double_add_def)

lemma foldl_double_add:
  assumes "0 \<le> acc" and "double_round acc = acc"
    and "\<forall>e \<in> set es. 0 \<le> c e \<and> double_round (c e) = c e"
  shows "acc \<le> foldl (\<lambda>a e. double_add a (c e)) acc es
       \<and> (\<forall>e \<in> set es. c e \<le> foldl (\<lambda>a e. double_add a (c e)) acc es)"
  using assms
proof (induction es arbitrary: acc)
  case Nil
  then show ?case by simp
next
  case (Cons x xs)
  let ?a = "double_add acc (c x)"
  have x: "0 \<le> c x" "double_round (c x) = c x" using Cons.prems(3) by simp_all
  have a0: "0 \<le> ?a" using Cons.prems(1) x(1) by (rule double_add_nonneg)
  have ai: "double_round ?a = ?a" using Cons.prems(1) x(1) by (rule double_add_idem)
  have rest: "\<forall>e \<in> set xs. 0 \<le> c e \<and> double_round (c e) = c e" using Cons.prems(3) by simp
  from Cons.IH[OF a0 ai rest]
  have ih: "?a \<le> foldl (\<lambda>a e. double_add a (c e)) ?a xs"
    and ihs: "\<forall>e \<in> set xs. c e \<le> foldl (\<lambda>a e. double_add a (c e)) ?a xs"
    by simp_all
  have l: "acc \<le> ?a" using Cons.prems(1) x(1) Cons.prems(2) by (rule double_add_ge_left)
  have r: "c x \<le> ?a" using Cons.prems(1) x(1) x(2) by (rule double_add_ge_right)
  show ?case using ih ihs l r by auto
qed

text \<open>
  The double product of a count \<open>N\<close> up to \<open>2\<^sup>5\<^sup>1\<close> and the double quotient of \<open>c\<close> by
  \<open>T\<close>, for \<open>0 \<le> c \<le> T\<close>, is at most \<open>N\<close> and less than one away from \<open>N c / T\<close>: each of
  the two roundings moves it by less than a quarter.
\<close>

lemma share_double_near:
  assumes N: "N \<le> 2 ^ 51" and c: "0 \<le> c" "c \<le> T" and T: "0 < T"
  defines "p \<equiv> double_mul (double_of_size_t N) (double_div c T)"
  shows "0 \<le> p" and "p \<le> real N" and "\<bar>p - real N * c / T\<bar> < 1"
proof -
  define s where "s = c / T"
  define s' where "s' = double_round s"
  have N53: "N \<le> 2 ^ 53"
  proof -
    have "(2::nat) ^ 51 \<le> 2 ^ 53" by simp
    with N show ?thesis by (rule order_trans)
  qed
  have Nr: "real N \<le> 2 ^ 51"
    using N by (metis of_nat_le_iff of_nat_numeral of_nat_power)
  have fN: "double_of_size_t N = real N"
    unfolding double_of_size_t_def using N53 by (rule double_round_of_nat)
  have s0: "0 \<le> s" and s1: "s \<le> 1" using c T by (simp_all add: s_def)
  have s'0: "0 \<le> s'" unfolding s'_def using s0 by (rule double_round_nonneg)
  have "double_round s \<le> double_round 1" using s0 s1 by (rule double_round_mono_nonneg)
  then have s'1: "s' \<le> 1" by (simp add: s'_def double_round_one)
  have es: "\<bar>s' - s\<bar> \<le> s / 2 ^ 53"
    using double_round_error[of s] s0 by (simp add: s'_def)
  have p: "p = double_round (real N * s')"
    by (simp add: p_def fN double_mul_def double_div_def s'_def s_def)
  have q0: "0 \<le> real N * s'" using s'0 by simp
  have q1: "real N * s' \<le> real N" using s'1 by (simp add: mult_left_le)
  show p0: "0 \<le> p" unfolding p using q0 by (rule double_round_nonneg)
  have "double_round (real N * s') \<le> double_round (real N)"
    using q0 q1 by (rule double_round_mono_nonneg)
  then show "p \<le> real N" using double_round_of_nat[OF N53] by (simp add: p)
  have ep: "\<bar>p - real N * s'\<bar> \<le> real N * s' / 2 ^ 53"
    using double_round_error[of "real N * s'"] q0 by (simp add: p)
  have "real N * s' / 2 ^ 53 \<le> real N / 2 ^ 53" using q1 by (simp add: divide_right_mono)
  also have "\<dots> \<le> 2 ^ 51 / 2 ^ 53" using Nr by (simp add: divide_right_mono)
  also have "\<dots> = 1 / 4" by simp
  finally have "real N * s' / 2 ^ 53 \<le> 1 / 4" .
  with ep have e1: "\<bar>p - real N * s'\<bar> \<le> 1 / 4" by (rule order_trans)
  have "\<bar>real N * s' - real N * s\<bar> = real N * \<bar>s' - s\<bar>"
    by (simp add: abs_mult flip: right_diff_distrib)
  also have "\<dots> \<le> real N * (s / 2 ^ 53)" using es by (intro mult_left_mono) simp_all
  also have "\<dots> \<le> real N * (1 / 2 ^ 53)"
    using s1 by (intro mult_left_mono divide_right_mono) simp_all
  also have "\<dots> \<le> 2 ^ 51 * (1 / 2 ^ 53)" using Nr by (intro mult_right_mono) simp_all
  also have "\<dots> = 1 / 4" by simp
  finally have e2: "\<bar>real N * s' - real N * s\<bar> \<le> 1 / 4" .
  have "real N * c / T = real N * s" by (simp add: s_def)
  then show "\<bar>p - real N * c / T\<bar> < 1" using e1 e2 by linarith
qed

lemma floor_near: "\<bar>a - b\<bar> < 1 \<Longrightarrow> \<bar>\<lfloor>a\<rfloor> - \<lfloor>b\<rfloor>\<bar> \<le> (1::int)" for a b :: real
  by linarith

section \<open>The emission budget\<close>

text \<open>
  Started at or below the number of emissions of the light, the loop that cuts them into
  work items ends; the items it appends are for this light, carry the flux per photon and
  between one and \<open>EPW\<close> emissions each, and their emissions add up to what was left.
\<close>

lemma emission_chunks_total:
  "count \<le> n \<Longrightarrow>
     \<exists>chunks. emission_chunks l n pf count work_vec = Some (work_vec @ chunks)
       \<and> sum_list (map num_emissions chunks) = n - count
       \<and> (\<forall>w \<in> set chunks. light w = l \<and> photon_flux w = pf
             \<and> 0 < num_emissions w \<and> num_emissions w \<le> EPW)"
proof (induction "n - count" arbitrary: count work_vec rule: less_induct)
  case less
  show ?case
  proof (cases "count = n")
    case True
    then show ?thesis by (subst emission_chunks.simps) simp
  next
    case False
    define emissions where "emissions = (if count + EPW > n then n - count else EPW)"
    define w where "w = \<lparr>light = l, num_emissions = emissions, photon_flux = pf\<rparr>"
    have pos: "0 < emissions" and le: "count + emissions \<le> n" and cap: "emissions \<le> EPW"
      using False less.prems by (auto simp: emissions_def EPW_def)
    have dec: "n - (count + emissions) < n - count" using pos le by simp
    from less.hyps[OF dec le, of "work_vec @ [w]"]
    obtain chunks where
      run: "emission_chunks l n pf (count + emissions) (work_vec @ [w]) = Some ((work_vec @ [w]) @ chunks)"
      and total: "sum_list (map num_emissions chunks) = n - (count + emissions)"
      and each: "\<forall>w \<in> set chunks. light w = l \<and> photon_flux w = pf
             \<and> 0 < num_emissions w \<and> num_emissions w \<le> EPW"
      by blast
    have step: "emission_chunks l n pf count work_vec
        = emission_chunks l n pf (count + emissions) (work_vec @ [w])"
      using False by (subst emission_chunks.simps) (simp add: emissions_def w_def Let_def)
    have "emission_chunks l n pf count work_vec = Some (work_vec @ (w # chunks))"
      using step run by simp
    moreover have "sum_list (map num_emissions (w # chunks)) = n - count"
      using total le by (simp add: w_def)
    moreover have "\<forall>v \<in> set (w # chunks). light v = l \<and> photon_flux v = pf
             \<and> 0 < num_emissions v \<and> num_emissions v \<le> EPW"
      using each pos cap by (simp add: w_def)
    ultimately show ?thesis by blast
  qed
qed

text \<open>
  For a flux without negative channel \<^verbatim>\<open>glm::compAdd\<close> is the 1-norm, and the total of the
  constructor is the total of the 1-norms; no 1-norm exceeds the total.
\<close>

lemma compAdd_norm1_double: "nonneg v \<Longrightarrow> compAdd v = norm1_double v"
  by (cases v) (simp add: nonneg_def)

lemma norm1_double_nonneg: "0 \<le> norm1_double v"
  by (cases v) (simp add: double_add_nonneg)

lemma norm1_double_idem: "double_round (norm1_double v) = norm1_double v"
  by (cases v) (simp add: double_add_idem double_add_nonneg)

lemma total_add_flux_total_norm1:
  "\<forall>e \<in> set emissives. nonneg (light_flux e) \<Longrightarrow> total_add_flux emissives = total_norm1 emissives"
  unfolding total_add_flux_def total_norm1_def
  by (rule foldl_cong) (simp_all add: compAdd_norm1_double)

lemma norm1_double_le_total:
  "l \<in> set emissives \<Longrightarrow> norm1_double (light_flux l) \<le> total_norm1 emissives"
  using foldl_double_add[of 0 emissives "\<lambda>e. norm1_double (light_flux e)"]
  by (simp add: total_norm1_def double_round_zero norm1_double_nonneg norm1_double_idem)

text \<open>
  The budget of the lights of the concrete scenes. The double nearest to \<open>29 / 100\<close> is
  a little below it, and a hundred times that double rounds to the double just below
  \<open>29\<close>; likewise the double nearest to \<open>1.15\<close> is a little below it, and a hundred
  times that double rounds to the double just below \<open>115\<close>, so that a hundred emissions
  scaled by a caustic factor of \<open>1.15\<close> are \<open>114\<close>.
\<close>

lemma light_flux_patch: "light_flux (patch (matte e) a) = smul_double a e"
  by (simp add: light_flux_def patch_def matte_def)

lemma light_flux_fixtures:
  "light_flux dim = dvec3 19 0 0" "light_flux bright = dvec3 27 27 27"
  "light_flux faint = dvec3 29 0 0" "light_flux strong = dvec3 71 0 0"
  by (simp_all add: dim_def bright_def faint_def strong_def light_flux_patch double_ops)

lemma emitted_flux_fixtures:
  "emitted_flux dim = dvec3 19 0 0" "emitted_flux bright = dvec3 27 27 27"
  "emitted_flux faint = dvec3 29 0 0" "emitted_flux strong = dvec3 71 0 0"
  by (simp_all add: dim_def bright_def faint_def strong_def emitted_flux_def patch_def matte_def)

lemma total_add_flux_fixtures:
  "total_add_flux [dim, bright] = 100" "total_add_flux [faint, strong] = 100"
  by (simp_all add: total_add_flux_def light_flux_fixtures double_ops)

lemma total_norm1_fixtures:
  "total_norm1 [dim, bright] = 100" "total_norm1 [faint, strong] = 100"
  by (simp_all add: total_norm1_def light_flux_fixtures double_ops)

lemma double_round_19_100: "double_round (19 / 100) = 3422735716801577 / 18014398509481984"
  by (subst double_round_scaled_down[of 55]) (simp_all add: round_half_even_def)

lemma double_round_29_100: "double_round (29 / 100) = 5224175567749775 / 18014398509481984"
  by (subst double_round_scaled_down[of 54]) (simp_all add: round_half_even_def)

lemma double_round_10_19_100:
  "double_round (17113678584007885 / 9007199254740992) = 4278419646001971 / 2251799813685248"
  by (subst double_round_scaled_down[of 52]) (simp_all add: round_half_even_def)

lemma double_round_100_29_100:
  "double_round (130604389193744375 / 4503599627370496) = 8162774324609023 / 281474976710656"
  by (subst double_round_scaled_down[of 48]) (simp_all add: round_half_even_def)

lemma double_round_115_100: "double_round (23 / 20) = 2589569785738035 / 2251799813685248"
  by (subst double_round_scaled_down[of 52]) (simp_all add: round_half_even_def)

lemma double_round_100_115_100:
  "double_round (64739244643450875 / 562949953421312) = 8092405580431359 / 70368744177664"
  by (subst double_round_scaled_down[of 46]) (simp_all add: round_half_even_def)

lemma double_round_29_28: "double_round (29 / 28) = 4664442471205157 / 4503599627370496"
  by (subst double_round_scaled_down[of 52]) (simp_all add: round_half_even_def)

lemma share_double_dim:
  "share_double 10 [dim, bright] dim = 4278419646001971 / 2251799813685248"
  by (simp add: share_double_def total_norm1_fixtures light_flux_fixtures double_ops
      double_round_19_100 double_round_10_19_100)

lemma num_light_emissions_dim: "num_light_emissions 10 (total_add_flux [dim, bright]) dim = 1"
  by (simp add: num_light_emissions_def total_add_flux_fixtures light_flux_fixtures double_ops
      double_round_19_100 double_round_10_19_100 static_cast_size_t_def)

lemma num_light_emissions_faint:
  "num_light_emissions 100 (total_add_flux [faint, strong]) faint = 28"
  by (simp add: num_light_emissions_def total_add_flux_fixtures light_flux_fixtures double_ops
      double_round_29_100 double_round_100_29_100 static_cast_size_t_def)

lemma scaled_emissions_115: "scaled_emissions 100 (double_round (115 / 100)) = 114"
  by (simp add: scaled_emissions_def double_ops double_round_115_100 double_round_100_115_100
      static_cast_size_t_def)

lemma scaled_emissions_one: "n \<le> 2 ^ 53 \<Longrightarrow> scaled_emissions n 1 = n"
  by (simp add: scaled_emissions_def double_mul_def double_of_size_t_def double_round_of_nat
      static_cast_size_t_def)

text \<open>
  C6, as the code has it. For an emitter of a scene whose emitters have no negative flux
  channel and a positive total, the number of emissions is the double product of \<open>N\<close> and
  the double quotient \<open>|\<Phi>\<^sub>i|\<^sub>1 / \<Sum>\<^sub>j |\<Phi>\<^sub>j|\<^sub>1\<close> with its fractional part dropped, the
  fluxes and the sums being those of the program, in double precision. For \<open>N\<close> up to
  \<open>2\<^sup>5\<^sup>1\<close> it is at most \<open>N\<close> and within one of the integer part of the exact
  \<open>N |\<Phi>\<^sub>i|\<^sub>1 / \<Sum>\<^sub>j |\<Phi>\<^sub>j|\<^sub>1\<close> of the same 1-norms. Each photon carries the flux of the
  emitter over that number, the division being that of doubles, channel by channel; and
  the work items made for the emitter carry this flux and hold that many emissions
  together. (When the number is \<open>0\<close> no work item is made, and the flux per photon, a
  quotient by zero, is carried by no photon.)
\<close>

theorem emission_share_is_truncated:
  "\<forall>e \<in> set emissives. nonneg (light_flux e) \<Longrightarrow> 0 < total_add_flux emissives \<Longrightarrow>
   l \<in> set emissives \<Longrightarrow>
   (let n = num_light_emissions N (total_add_flux emissives) l;
        phi = light_photon_flux N (total_add_flux emissives) l
    in n = emissions_truncated N emissives l
       \<and> (N \<le> 2 ^ 51 \<longrightarrow> n \<le> N \<and> \<bar>int n - \<lfloor>share_of_doubles N emissives l\<rfloor>\<bar> \<le> 1)
       \<and> phi = sdiv_double (light_flux l) (double_of_size_t n)
       \<and> (\<exists>chunks. emission_chunks l n phi 0 work_vec = Some (work_vec @ chunks)
             \<and> sum_list (map num_emissions chunks) = n
             \<and> (\<forall>w \<in> set chunks. light w = l \<and> photon_flux w = phi)))"
proof -
  assume nn: "\<forall>e \<in> set emissives. nonneg (light_flux e)"
    and pos: "0 < total_add_flux emissives" and l: "l \<in> set emissives"
  define n where "n = num_light_emissions N (total_add_flux emissives) l"
  define phi where "phi = light_photon_flux N (total_add_flux emissives) l"
  have tot: "total_add_flux emissives = total_norm1 emissives"
    using nn by (rule total_add_flux_total_norm1)
  have cl: "compAdd (light_flux l) = norm1_double (light_flux l)"
    using nn l by (simp add: compAdd_norm1_double)
  have n: "n = nat \<lfloor>share_double N emissives l\<rfloor>"
    by (simp add: n_def num_light_emissions_def share_double_def static_cast_size_t_def
        tot cl Let_def)
  then have a: "n = emissions_truncated N emissives l"
    by (simp add: emissions_truncated_def)
  have b: "N \<le> 2 ^ 51 \<longrightarrow> n \<le> N \<and> \<bar>int n - \<lfloor>share_of_doubles N emissives l\<rfloor>\<bar> \<le> 1"
  proof
    assume N: "N \<le> 2 ^ 51"
    have T: "0 < total_norm1 emissives" using pos by (simp add: tot)
    note near = share_double_near[OF N norm1_double_nonneg norm1_double_le_total[OF l] T]
    have p0: "0 \<le> share_double N emissives l" using near(1) by (simp add: share_double_def)
    have p1: "share_double N emissives l \<le> real N" using near(2) by (simp add: share_double_def)
    have p2: "\<bar>share_double N emissives l - share_of_doubles N emissives l\<bar> < 1"
      using near(3) by (simp add: share_double_def share_of_doubles_def)
    have i: "int n = \<lfloor>share_double N emissives l\<rfloor>" using p0 by (simp add: n)
    have "\<lfloor>share_double N emissives l\<rfloor> \<le> int N" using p1 by (simp add: floor_le_iff)
    then have "n \<le> N" using i by simp
    moreover have "\<bar>int n - \<lfloor>share_of_doubles N emissives l\<rfloor>\<bar> \<le> 1"
      unfolding i using p2 by (rule floor_near)
    ultimately show "n \<le> N \<and> \<bar>int n - \<lfloor>share_of_doubles N emissives l\<rfloor>\<bar> \<le> 1" ..
  qed
  have c: "phi = sdiv_double (light_flux l) (double_of_size_t n)"
    by (simp add: phi_def n_def light_photon_flux_def)
  from emission_chunks_total[of 0 n l phi work_vec]
  have d: "\<exists>chunks. emission_chunks l n phi 0 work_vec = Some (work_vec @ chunks)
             \<and> sum_list (map num_emissions chunks) = n
             \<and> (\<forall>w \<in> set chunks. light w = l \<and> photon_flux w = phi)"
    by auto
  show ?thesis
    unfolding Let_def n_def[symmetric] phi_def[symmetric] using a b c d by blast
qed

text \<open>
  C6, as stated. With ten emissions and fluxes of 1-norm \<open>19\<close> and \<open>81\<close> the share of the
  dim light is \<open>1.9\<close>; rounded to the nearest integer it would be \<open>2\<close>, in exact
  arithmetic and in double precision alike, and the code assigns \<open>1\<close>. With a hundred
  emissions and fluxes of 1-norm \<open>29\<close> and \<open>71\<close> the share of the faint light is \<open>29\<close>,
  an integer, and the code assigns \<open>28\<close>: the double product is just below \<open>29\<close>.
\<close>

theorem emission_share_not_rounded:
  "scaled_emissions (json_emissions json1) (json_caustic_factor json1) = 10
   \<and> share_spec 10 [dim, bright] dim = 19 / 10
   \<and> emissions_rounded 10 [dim, bright] dim = 2
   \<and> emissions_rounded_double 10 [dim, bright] dim = 2
   \<and> num_light_emissions 10 (total_add_flux [dim, bright]) dim = 1
   \<and> share_spec 100 [faint, strong] faint = 29
   \<and> emissions_rounded 100 [faint, strong] faint = 29
   \<and> num_light_emissions 100 (total_add_flux [faint, strong]) faint = 28"
  by (simp add: scaled_emissions_one json1_def json0_def num_light_emissions_dim
      num_light_emissions_faint emissions_rounded_def emissions_rounded_double_def share_double_dim share_spec_def emitted_flux_fixtures
      round_def)

theorem emission_share_is_truncated_witness:
  "nonneg (light_flux faint) \<and> nonneg (light_flux strong)
   \<and> 0 < total_add_flux [faint, strong]
   \<and> num_light_emissions 100 (total_add_flux [faint, strong]) faint = 28
   \<and> emissions_truncated 100 [faint, strong] faint = 28
   \<and> \<lfloor>share_of_doubles 100 [faint, strong] faint\<rfloor> = 29
   \<and> light_photon_flux 100 (total_add_flux [faint, strong]) faint
       = dvec3 (4664442471205157 / 4503599627370496) 0 0
   \<and> emission_chunks faint 28 (dvec3 (4664442471205157 / 4503599627370496) 0 0) 0 []
       = Some [\<lparr>light = faint, num_emissions = 28,
                 photon_flux = dvec3 (4664442471205157 / 4503599627370496) 0 0\<rparr>]"
proof -
  let ?phi = "dvec3 (4664442471205157 / 4503599627370496) 0 0"
  have nn: "\<forall>e \<in> set [faint, strong]. nonneg (light_flux e)"
    by (simp add: light_flux_fixtures nonneg_def)
  have pos: "0 < total_add_flux [faint, strong]"
    by (simp add: total_add_flux_fixtures)
  have mem: "faint \<in> set [faint, strong]" by simp
  have n: "num_light_emissions 100 (total_add_flux [faint, strong]) faint = 28"
    by (rule num_light_emissions_faint)
  have ex: "\<lfloor>share_of_doubles 100 [faint, strong] faint\<rfloor> = 29"
    by (simp add: share_of_doubles_def total_norm1_fixtures light_flux_fixtures double_ops)
  have phi: "light_photon_flux 100 (total_add_flux [faint, strong]) faint = ?phi"
    unfolding light_photon_flux_def n
    by (simp add: light_flux_fixtures double_ops double_round_29_28)
  have run: "emission_chunks faint 28 ?phi 0 []
       = Some [\<lparr>light = faint, num_emissions = 28, photon_flux = ?phi\<rparr>]"
    by (subst emission_chunks.simps, simp add: EPW_def, subst emission_chunks.simps, simp)
  show ?thesis
    using emission_share_is_truncated[OF nn pos mem, of 100 "[]"] nn pos n ex phi run
    by (simp add: Let_def)
qed

text \<open>The loops of the constructor that make the work items end.\<close>

lemma emission_work_returns:
  "\<exists>work. emission_work N tot emissives work_vec = Some work"
proof (induction emissives arbitrary: work_vec)
  case Nil
  show ?case by simp
next
  case (Cons l ls)
  obtain chunks where "emission_chunks l (num_light_emissions N tot l) (light_photon_flux N tot l)
      0 work_vec = Some (work_vec @ chunks)"
    using emission_chunks_total[of 0 "num_light_emissions N tot l" l "light_photon_flux N tot l" work_vec]
    by auto
  then show ?case using Cons.IH[of "work_vec @ chunks"] by simp
qed

section \<open>The radiance estimate\<close>

text \<open>
  C3, as the code has it. At a diffuse hit \<^verbatim>\<open>sampleRay\<close> bounces at once when
  \<^verbatim>\<open>direct_visualization\<close> is off and the ray has depth \<open>0\<close>, or is specular, or has
  travelled at least \<^verbatim>\<open>min_bounce_distance\<close>, which the constructor sets to five times
  \<^verbatim>\<open>max_radius\<close>. Otherwise it searches the indirect map, and there it falls back to
  the bounce when fewer than \<open>k\<close> photons come back and \<^verbatim>\<open>direct_visualization\<close> is off.
  Altogether it bounces exactly when it bounces at once, or \<^verbatim>\<open>direct_visualization\<close> is
  off and either the indirect search did not return \<open>k\<close> photons or the direct search
  returned none while shadow photons are in use and none is near.
\<close>

theorem sampleRay_diffuse_decision:
  "(let continue = (\<not> direct_visualization pm
                     \<and> (depth r = 0 \<or> specular r \<or> Interaction.t ia \<ge> min_bounce_distance pm));
        k = k_nearest_photons pm;
        indirect_photons =
          knnSearch (linear_indirect_map pm) (Interaction.position ia) k (max_radius pm);
        direct_photons =
          knnSearch (linear_direct_map pm) (Interaction.position ia) k (max_radius pm)
    in (continue \<longrightarrow> sampleRay_diffuse lib pm r ia bounce from_maps = bounce)
       \<and> (\<not> continue \<longrightarrow>
            sampleRay_diffuse lib pm r ia bounce from_maps
              = attempt_termination lib pm ia bounce from_maps)
       \<and> (\<not> direct_visualization pm \<and> length indirect_photons < k \<longrightarrow>
            attempt_termination lib pm ia bounce from_maps = bounce)
       \<and> (sampleRay_diffuse lib pm r ia Bounce FromMaps = Bounce)
           = (continue
              \<or> (\<not> direct_visualization pm
                  \<and> (length indirect_photons \<noteq> k
                      \<or> (direct_photons = [] \<and> use_shadow_photons pm
                          \<and> \<not> hasShadowPhotons pm ia)))))
   \<and> min_bounce_distance (PhotonMapper_settings j pm) = 5 * json_max_radius j
   \<and> max_radius (PhotonMapper_settings j pm) = json_max_radius j"
  by (auto simp: sampleRay_diffuse_def attempt_termination_def PhotonMapper_settings_def Let_def)

text \<open>
  C3, as stated: with \<^verbatim>\<open>direct_visualization\<close> on and empty maps, the indirect search
  returns fewer than \<open>k = 50\<close> photons, and \<^verbatim>\<open>sampleRay\<close> does not bounce: it returns the
  estimate from the maps.
\<close>

theorem underfilled_with_direct_visualization:
  "direct_visualization pm_dv
   \<and> length (knnSearch (linear_indirect_map pm_dv) (Interaction.position near_hit)
               (k_nearest_photons pm_dv) (max_radius pm_dv)) < k_nearest_photons pm_dv
   \<and> sampleRay_diffuse lib0 pm_dv (down 1 False) near_hit Bounce FromMaps = FromMaps (Inr 0) []
   \<and> sampleRay_diffuse lib0 pm_dv (down 1 False) near_hit Bounce FromMaps \<noteq> Bounce"
  by (simp add: sampleRay_diffuse_def attempt_termination_def pm_dv_def pm0_def
        PhotonMapper_settings_def json0_def getOptional_def empty_map_def Let_def)

text \<open>
  With \<^verbatim>\<open>direct_visualization\<close> off: a first hit bounces; so does a hit at distance one,
  beyond the minimal bounce distance; a near hit in empty maps falls back to the bounce;
  and a near hit in maps that return \<open>k\<close> photons is estimated from the maps.
\<close>

theorem sampleRay_diffuse_decision_witness:
  "sampleRay_diffuse lib0 pm0 (down 0 False) (diffuse_hit (down 0 False)) Bounce FromMaps = Bounce
   \<and> sampleRay_diffuse lib0 pm0 (down 1 False) (diffuse_hit (down 1 False)) Bounce FromMaps = Bounce
   \<and> Interaction.t near_hit < min_bounce_distance pm0
   \<and> length (knnSearch (linear_indirect_map pm0) (Interaction.position near_hit)
               (k_nearest_photons pm0) (max_radius pm0)) < k_nearest_photons pm0
   \<and> sampleRay_diffuse lib0 pm0 (down 1 False) near_hit Bounce FromMaps = Bounce
   \<and> sampleRay_diffuse lib0 pm_k1 (down 1 False) near_hit Bounce FromMaps
       = FromMaps (estimateRadiance (CoordinateSystem.normal (cs near_hit)) (BRDF lib0 near_hit)
                     [found (- up) (1 / 100)])
           [found (- up) (1 / 100)]"
  using sampleRay_diffuse_decision
          [of pm0 "down 0 False" "diffuse_hit (down 0 False)" lib0 Bounce FromMaps json0]
        sampleRay_diffuse_decision
          [of pm0 "down 1 False" "diffuse_hit (down 1 False)" lib0 Bounce FromMaps json0]
        sampleRay_diffuse_decision
          [of pm0 "down 1 False" near_hit lib0 Bounce FromMaps json0]
        sampleRay_diffuse_decision
          [of pm_k1 "down 1 False" near_hit lib0 Bounce FromMaps json0]
  by (simp add: sampleRay_diffuse_def attempt_termination_def near_hit_def pm_k1_def pm0_def
        PhotonMapper_settings_def json0_def getOptional_def empty_map_def one_photon_map_def
        down_fields Let_def diffuse_hit_def Interaction_ctor_def Interaction_normals_def
        selectType_def Random_unit_def hit_def patch_def matte_def lib0_def Ray_at_def
        hasShadowPhotons_def)

text \<open>
  Neither estimate fails, so the radiance estimate as a whole never reads a vector where
  it has no element.
\<close>

lemma estimateRadiance_returns: "\<exists>radiance. estimateRadiance n brdf photons = Inr radiance"
  by (simp add: estimateRadiance_def vector_back_def Let_def)

lemma estimateCausticRadiance_returns:
  "\<exists>radiance. estimateCausticRadiance n brdf photons = Inr radiance"
  by (simp add: estimateCausticRadiance_def vector_back_def Let_def)

lemma sampleRay_diffuse_ways:
  "sampleRay_diffuse lib pm r ia bounce from_maps = bounce
   \<or> (\<exists>direct photons. sampleRay_diffuse lib pm r ia bounce from_maps = from_maps (Inr direct) photons)"
proof -
  obtain d where d: "estimateRadiance (CoordinateSystem.normal (cs ia)) (BRDF lib ia)
      (knnSearch (linear_direct_map pm) (Interaction.position ia) (k_nearest_photons pm)
         (max_radius pm)) = Inr d"
    using estimateRadiance_returns by blast
  show ?thesis
    unfolding sampleRay_diffuse_def attempt_termination_def Let_def d
    by (simp; blast)
qed

lemma sampleRay_no_error: "sampleRay fuel lib pm r g \<noteq> Some (Inl e)"
proof (induction fuel arbitrary: r g)
  case 0
  show ?case by simp
next
  case (Suc fuel)
  show ?case
  proof (cases "depth r = max_ray_depth pm")
    case True
    then show ?thesis by simp
  next
    case deep: False
    show ?thesis
    proof (cases "intersect pm r")
      case None
      with deep show ?thesis by simp
    next
      case (Some intersection)
      obtain absorbed survive g1 where ab: "absorb pm r intersection g = ((absorbed, survive), g1)"
        by (metis prod.exhaust)
      obtain ia g2 where ct: "Interaction_ctor lib intersection r g1 = (ia, g2)"
        by (metis prod.exhaust)
      obtain nr g3 where ro: "Ray_of pm ia g2 = (nr, g3)"
        by (metis prod.exhaust)
      obtain caustics where ca: "estimateCausticRadiance (CoordinateSystem.normal (cs ia))
          (BRDF lib ia) (knnSearch (linear_caustic_map pm) (Interaction.position ia)
             (k_nearest_photons pm) (max_caustic_radius pm)) = Inr caustics"
        using estimateCausticRadiance_returns by blast
      note IH = Suc.IH[of nr g3]
      show ?thesis
      proof (cases "absorbed")
        case True
        with deep Some ab show ?thesis by simp
      next
        case alive: False
        show ?thesis
        proof (cases "type ia = DIFFUSE")
          case False
          with deep Some ab ct ro alive IH show ?thesis
            by (auto simp: Let_def split: option.splits sum.splits prod.splits)
        next
          case True
          define bounce where "bounce =
            (case sampleRay fuel lib pm nr g3 of
               None \<Rightarrow> None
             | Some (Inl e) \<Rightarrow> Some (Inl e)
             | Some (Inr (radiance, g4)) \<Rightarrow>
                 let indirect = smul pi radiance;
                     (direct, g5) = evaluateDirect pm ia g4
                 in Some (Inr (sdiv ((if depth r = 0 \<or> specular r
                                      then emittance (Interaction.material ia) else 0) + caustics
                            + (direct + indirect) * BRDF lib ia (Ray.direction nr)) survive, g5)))"
          define from_maps where "from_maps =
            (\<lambda>direct indirect_photons.
               case direct of
                 Inl e \<Rightarrow> Some (Inl e)
               | Inr direct \<Rightarrow>
                   (case estimateRadiance (CoordinateSystem.normal (cs ia))
                           (BRDF lib ia) indirect_photons of
                      Inl e \<Rightarrow> Some (Inl e)
                    | Inr indirect \<Rightarrow>
                        Some (Inr (sdiv ((if depth r = 0 \<or> specular r
                                          then emittance (Interaction.material ia) else 0)
                                    + caustics + direct + indirect) survive, g2))))"
          have eq: "sampleRay (Suc fuel) lib pm r g = sampleRay_diffuse lib pm r ia bounce from_maps"
            using deep Some ab ct ro alive True ca
            by (simp add: Let_def bounce_def from_maps_def)
          have b: "bounce \<noteq> Some (Inl e)"
            using IH by (auto simp: bounce_def Let_def split: option.splits sum.splits prod.splits)
          have f: "from_maps (Inr d) ps \<noteq> Some (Inl e)" for d ps
            using estimateRadiance_returns[of "CoordinateSystem.normal (cs ia)" "BRDF lib ia" ps]
            by (auto simp: from_maps_def)
          show ?thesis
            unfolding eq using sampleRay_diffuse_ways[of lib pm r ia bounce from_maps] b f
            by auto
        qed
      qed
    qed
  qed
qed

text \<open>
  Under the same condition on the depth of the next ray, the estimate returns within the
  fuel of the levels that are left.
\<close>

lemma sampleRay_returns:
  assumes deeper: "\<And>ia g. depth (fst (Ray_of pm ia g)) = Suc (depth (ray ia))"
  shows "depth r \<le> max_ray_depth pm \<Longrightarrow> max_ray_depth pm - depth r < fuel \<Longrightarrow>
           \<exists>res. sampleRay fuel lib pm r g = Some res"
proof (induction fuel arbitrary: r g)
  case 0
  then show ?case by simp
next
  case (Suc fuel)
  show ?case
  proof (cases "depth r = max_ray_depth pm")
    case True
    then show ?thesis by simp
  next
    case deep: False
    show ?thesis
    proof (cases "intersect pm r")
      case None
      with deep show ?thesis by simp
    next
      case (Some intersection)
      obtain absorbed survive g1 where ab: "absorb pm r intersection g = ((absorbed, survive), g1)"
        by (metis prod.exhaust)
      obtain ia g2 where ct: "Interaction_ctor lib intersection r g1 = (ia, g2)"
        by (metis prod.exhaust)
      obtain nr g3 where ro: "Ray_of pm ia g2 = (nr, g3)"
        by (metis prod.exhaust)
      obtain caustics where ca: "estimateCausticRadiance (CoordinateSystem.normal (cs ia))
          (BRDF lib ia) (knnSearch (linear_caustic_map pm) (Interaction.position ia)
             (k_nearest_photons pm) (max_caustic_radius pm)) = Inr caustics"
        using estimateCausticRadiance_returns by blast
      have "ray ia = r" using Interaction_ctor_ray[of lib intersection r g1] ct by simp
      then have dn: "depth nr = Suc (depth r)" using deeper[of ia g2] ro by simp
      have le: "depth nr \<le> max_ray_depth pm" using dn deep Suc.prems(1) by simp
      have lt: "max_ray_depth pm - depth nr < fuel" using dn deep Suc.prems by simp
      from Suc.IH[OF le lt, of g3] obtain res where IH: "sampleRay fuel lib pm nr g3 = Some res"
        by blast
      show ?thesis
      proof (cases "absorbed")
        case True
        with deep Some ab show ?thesis by simp
      next
        case alive: False
        show ?thesis
        proof (cases "type ia = DIFFUSE")
          case False
          with deep Some ab ct ro alive IH show ?thesis
            by (auto simp: Let_def split: option.splits sum.splits prod.splits)
        next
          case True
          define bounce where "bounce =
            (case sampleRay fuel lib pm nr g3 of
               None \<Rightarrow> None
             | Some (Inl e) \<Rightarrow> Some (Inl e)
             | Some (Inr (radiance, g4)) \<Rightarrow>
                 let indirect = smul pi radiance;
                     (direct, g5) = evaluateDirect pm ia g4
                 in Some (Inr (sdiv ((if depth r = 0 \<or> specular r
                                      then emittance (Interaction.material ia) else 0) + caustics
                            + (direct + indirect) * BRDF lib ia (Ray.direction nr)) survive, g5)))"
          define from_maps where "from_maps =
            (\<lambda>direct indirect_photons.
               case direct of
                 Inl e \<Rightarrow> Some (Inl e)
               | Inr direct \<Rightarrow>
                   (case estimateRadiance (CoordinateSystem.normal (cs ia))
                           (BRDF lib ia) indirect_photons of
                      Inl e \<Rightarrow> Some (Inl e)
                    | Inr indirect \<Rightarrow>
                        Some (Inr (sdiv ((if depth r = 0 \<or> specular r
                                          then emittance (Interaction.material ia) else 0)
                                    + caustics + direct + indirect) survive, g2))))"
          have eq: "sampleRay (Suc fuel) lib pm r g = sampleRay_diffuse lib pm r ia bounce from_maps"
            using deep Some ab ct ro alive True ca
            by (simp add: Let_def bounce_def from_maps_def)
          have b: "\<exists>res. bounce = Some res"
            using IH by (auto simp: bounce_def Let_def split: option.splits sum.splits prod.splits)
          have f: "\<exists>res. from_maps d ps = Some res" for d ps
            by (auto simp: from_maps_def split: sum.splits)
          show ?thesis
            unfolding eq using sampleRay_diffuse_ways[of lib pm r ia bounce from_maps] b f
            by metis
        qed
      qed
    qed
  qed
qed

end
